theory Spec2Isabelle
  imports Complex_Main "HOL-Library.Char_ord" "HOL-Library.List_Lexorder" "HOL-Library.Multiset"
begin

section \<open>ORSF: the canonical setup document (core.hpp)\<close>

text \<open>
  The C++ \<open>double\<close> is modelled as \<open>real\<close> (exact arithmetic, no NaN, no infinities,
  no rounding), \<open>int\<close> as \<open>int\<close> (no arithmetic is performed on the integer fields, they
  are only compared and cast), \<open>std::optional\<close> as \<open>option\<close>, \<open>std::string\<close> as
  \<open>string\<close> and \<open>std::vector\<close> as \<open>list\<close>.  Strings are ordered as
  \<open>std::string\<close> is: lexicographically by unsigned byte value.
\<close>

datatype json =
    JNull
  | JBool bool
  | JNumber real
  | JString string
  | JArray "json list"
  | JObject "(string \<times> json) list"

record Metadata =
  metadata_id :: string
  name :: string
  metadata_notes :: "string option"
  created_at :: string
  updated_at :: "string option"
  created_by :: "string option"
  tags :: "string list option"
  source :: "string option"
  origin_sim :: "string option"

record Car =
  car_make :: string
  model :: string
  variant :: "string option"
  car_class :: "string option"
  bop_id :: "string option"

record Context =
  track :: "string option"
  layout :: "string option"
  ambient_temp_c :: "real option"
  track_temp_c :: "real option"
  rubber :: "string option"
  wetness :: "real option"
  session_type :: "string option"
  fuel_rule :: "string option"

record Aerodynamics =
  front_wing :: "real option"
  rear_wing :: "real option"
  front_downforce_n :: "real option"
  rear_downforce_n :: "real option"
  front_ride_height_mm :: "real option"
  rear_ride_height_mm :: "real option"
  rake_mm :: "real option"
  brake_duct_front_pct :: "real option"
  brake_duct_rear_pct :: "real option"
  radiator_opening_pct :: "real option"

record CornerSuspension =
  camber_deg :: "real option"
  toe_deg :: "real option"
  caster_deg :: "real option"
  spring_rate_n_mm :: "real option"
  ride_height_mm :: "real option"
  bumpstop_gap_mm :: "real option"
  bumpstop_rate_n_mm :: "real option"
  packer_mm :: "real option"
  damper_bump_slow_n_s_m :: "real option"
  damper_bump_fast_n_s_m :: "real option"
  damper_rebound_slow_n_s_m :: "real option"
  damper_rebound_fast_n_s_m :: "real option"

record Suspension =
  front_left :: "CornerSuspension option"
  front_right :: "CornerSuspension option"
  rear_left :: "CornerSuspension option"
  rear_right :: "CornerSuspension option"
  front_arb :: "real option"
  rear_arb :: "real option"
  heave_spring_n_mm :: "real option"
  heave_packer_mm :: "real option"

record Tires =
  compound :: "string option"
  pressure_fl_kpa :: "real option"
  pressure_fr_kpa :: "real option"
  pressure_rl_kpa :: "real option"
  pressure_rr_kpa :: "real option"
  stagger_mm :: "real option"

record Drivetrain =
  diff_preload_nm :: "real option"
  diff_power_ramp_pct :: "real option"
  diff_coast_ramp_pct :: "real option"
  final_drive_ratio :: "real option"
  lsd_clutch_plates :: "int option"

record Gearing =
  gear_ratios :: "real list option"
  reverse_ratio :: "real option"

record Brakes =
  pad_compound :: "string option"
  disc_type :: "string option"
  brake_bias_pct :: "real option"
  max_force_n :: "real option"

record Electronics =
  tc_level :: "int option"
  tc2_level :: "int option"
  abs_level :: "int option"
  engine_map :: "int option"
  engine_brake_level :: "int option"
  pit_limiter_kph :: "real option"

record Fuel =
  start_fuel_l :: "real option"
  per_lap_consumption_l :: "real option"
  stint_target_laps :: "int option"
  mixture_setting :: "int option"

record Strategy =
  tire_change_policy :: "string option"
  strategy_notes :: "string option"
  custom :: "(string \<times> json) list"

record Setup =
  aero :: "Aerodynamics option"
  suspension :: "Suspension option"
  tires :: "Tires option"
  drivetrain :: "Drivetrain option"
  gearing :: "Gearing option"
  brakes :: "Brakes option"
  electronics :: "Electronics option"
  fuel :: "Fuel option"
  strategy :: "Strategy option"

record ORSF =
  schema :: string
  metadata :: Metadata
  car :: Car
  orsf_context :: "Context option"
  orsf_setup :: Setup
  compat :: "(string \<times> json) list option"

text \<open>The value-initialised structs the code writes as \<open>Aerodynamics{}\<close>, \<open>Tires{}\<close>,
  \<open>Brakes{}\<close>, and the default-constructed \<open>ORSF()\<close>, whose schema is \<open>orsf://v1\<close>.\<close>

definition Aerodynamics_default :: Aerodynamics where
  "Aerodynamics_default = \<lparr>front_wing = None, rear_wing = None, front_downforce_n = None,
     rear_downforce_n = None, front_ride_height_mm = None, rear_ride_height_mm = None,
     rake_mm = None, brake_duct_front_pct = None, brake_duct_rear_pct = None,
     radiator_opening_pct = None\<rparr>"

definition Tires_default :: Tires where
  "Tires_default = \<lparr>compound = None, pressure_fl_kpa = None, pressure_fr_kpa = None,
     pressure_rl_kpa = None, pressure_rr_kpa = None, stagger_mm = None\<rparr>"

definition Brakes_default :: Brakes where
  "Brakes_default = \<lparr>pad_compound = None, disc_type = None, brake_bias_pct = None,
     max_force_n = None\<rparr>"

definition Setup_default :: Setup where
  "Setup_default = \<lparr>aero = None, suspension = None, tires = None, drivetrain = None,
     gearing = None, brakes = None, electronics = None, fuel = None, strategy = None\<rparr>"

definition ORSF_default :: ORSF where
  "ORSF_default = \<lparr>schema = ''orsf://v1'',
     metadata = \<lparr>metadata_id = [], name = [], metadata_notes = None, created_at = [], updated_at = None,
                  created_by = None, tags = None, source = None, origin_sim = None\<rparr>,
     car = \<lparr>car_make = [], model = [], variant = None, car_class = None, bop_id = None\<rparr>,
     orsf_context = None, orsf_setup = Setup_default, compat = None\<rparr>"

section \<open>String utilities (utils.cpp)\<close>

text \<open>\<open>StringUtils::split\<close> reads with \<open>std::getline\<close>: every delimiter closes a part
  (an empty one too), and what follows the last delimiter is a part only when it is not
  empty.\<close>

fun split_from :: "char \<Rightarrow> string \<Rightarrow> string \<Rightarrow> string list" where
  "split_from delim part [] = (if part = [] then [] else [part])"
| "split_from delim part (c # cs) =
     (if c = delim then part # split_from delim [] cs
      else split_from delim (part @ [c]) cs)"

definition split :: "string \<Rightarrow> char \<Rightarrow> string list" where
  "split str delim = split_from delim [] str"

text \<open>\<open>std::to_string\<close> of a \<open>size_t\<close>: the decimal digits.\<close>

definition digit_char :: "nat \<Rightarrow> char" where
  "digit_char d = ''0123456789'' ! d"

fun to_string_nat :: "nat \<Rightarrow> string" where
  "to_string_nat n =
     (if n < 10 then [digit_char n] else to_string_nat (n div 10) @ [digit_char (n mod 10)])"

declare to_string_nat.simps [simp del]

section \<open>The mapping engine (mapping.hpp, mapping.cpp)\<close>

type_synonym FlatSetup = "string \<rightharpoonup> real"

definition split_path :: "string \<Rightarrow> string list" where
  "split_path path = split path (CHR ''.'')"

subsection \<open>get_value\<close>

text \<open>The body of \<open>get_value\<close> is a sequence of guarded blocks; a block that is entered
  and finds no matching field falls through to the blocks after it.  Each definition below
  is the code from one block to the end of the function.  The code has no block for the
  section \<open>gearing\<close>.\<close>

definition get_value_fuel :: "ORSF \<Rightarrow> string list \<Rightarrow> real option" where
  "get_value_fuel orsf parts =
     (if parts ! 1 = ''fuel'' \<and> fuel (orsf_setup orsf) \<noteq> None then
        (let fu = the (fuel (orsf_setup orsf)) in
         if length parts < 3 then None
         else if parts ! 2 = ''start_fuel_l'' then start_fuel_l fu
         else if parts ! 2 = ''per_lap_consumption_l'' then per_lap_consumption_l fu
         else if parts ! 2 = ''stint_target_laps'' \<and> stint_target_laps fu \<noteq> None
           then Some (real_of_int (the (stint_target_laps fu)))
         else None)
      else None)"

definition get_value_electronics :: "ORSF \<Rightarrow> string list \<Rightarrow> real option" where
  "get_value_electronics orsf parts =
     (if parts ! 1 = ''electronics'' \<and> electronics (orsf_setup orsf) \<noteq> None then
        (let elec = the (electronics (orsf_setup orsf)) in
         if length parts < 3 then None
         else if parts ! 2 = ''tc_level'' \<and> tc_level elec \<noteq> None
           then Some (real_of_int (the (tc_level elec)))
         else if parts ! 2 = ''abs_level'' \<and> abs_level elec \<noteq> None
           then Some (real_of_int (the (abs_level elec)))
         else if parts ! 2 = ''engine_map'' \<and> engine_map elec \<noteq> None
           then Some (real_of_int (the (engine_map elec)))
         else if parts ! 2 = ''pit_limiter_kph'' then pit_limiter_kph elec
         else get_value_fuel orsf parts)
      else get_value_fuel orsf parts)"

definition get_value_brakes :: "ORSF \<Rightarrow> string list \<Rightarrow> real option" where
  "get_value_brakes orsf parts =
     (if parts ! 1 = ''brakes'' \<and> brakes (orsf_setup orsf) \<noteq> None then
        (let br = the (brakes (orsf_setup orsf)) in
         if length parts < 3 then None
         else if parts ! 2 = ''brake_bias_pct'' then brake_bias_pct br
         else if parts ! 2 = ''max_force_n'' then max_force_n br
         else get_value_electronics orsf parts)
      else get_value_electronics orsf parts)"

definition get_value_drivetrain :: "ORSF \<Rightarrow> string list \<Rightarrow> real option" where
  "get_value_drivetrain orsf parts =
     (if parts ! 1 = ''drivetrain'' \<and> drivetrain (orsf_setup orsf) \<noteq> None then
        (let dt = the (drivetrain (orsf_setup orsf)) in
         if length parts < 3 then None
         else if parts ! 2 = ''diff_preload_nm'' then diff_preload_nm dt
         else if parts ! 2 = ''diff_power_ramp_pct'' then diff_power_ramp_pct dt
         else if parts ! 2 = ''diff_coast_ramp_pct'' then diff_coast_ramp_pct dt
         else if parts ! 2 = ''final_drive_ratio'' then final_drive_ratio dt
         else if parts ! 2 = ''lsd_clutch_plates'' \<and> lsd_clutch_plates dt \<noteq> None
           then Some (real_of_int (the (lsd_clutch_plates dt)))
         else get_value_brakes orsf parts)
      else get_value_brakes orsf parts)"

definition get_value_tires :: "ORSF \<Rightarrow> string list \<Rightarrow> real option" where
  "get_value_tires orsf parts =
     (if parts ! 1 = ''tires'' \<and> tires (orsf_setup orsf) \<noteq> None then
        (let ti = the (tires (orsf_setup orsf)) in
         if length parts < 3 then None
         else if parts ! 2 = ''pressure_fl_kpa'' then pressure_fl_kpa ti
         else if parts ! 2 = ''pressure_fr_kpa'' then pressure_fr_kpa ti
         else if parts ! 2 = ''pressure_rl_kpa'' then pressure_rl_kpa ti
         else if parts ! 2 = ''pressure_rr_kpa'' then pressure_rr_kpa ti
         else if parts ! 2 = ''stagger_mm'' then stagger_mm ti
         else get_value_drivetrain orsf parts)
      else get_value_drivetrain orsf parts)"

text \<open>The corner pointer of the suspension block: null (here \<open>None\<close>) when the third
  segment names no corner or the named corner is absent.\<close>

definition get_value_corner :: "Suspension \<Rightarrow> string \<Rightarrow> CornerSuspension option" where
  "get_value_corner susp seg =
     (if seg = ''front_left'' then front_left susp
      else if seg = ''front_right'' then front_right susp
      else if seg = ''rear_left'' then rear_left susp
      else if seg = ''rear_right'' then rear_right susp
      else None)"

definition get_value_arbs :: "ORSF \<Rightarrow> Suspension \<Rightarrow> string list \<Rightarrow> real option" where
  "get_value_arbs orsf susp parts =
     (if parts ! 2 = ''front_arb'' then front_arb susp
      else if parts ! 2 = ''rear_arb'' then rear_arb susp
      else if parts ! 2 = ''heave_spring_n_mm'' then heave_spring_n_mm susp
      else get_value_tires orsf parts)"

definition get_value_suspension :: "ORSF \<Rightarrow> string list \<Rightarrow> real option" where
  "get_value_suspension orsf parts =
     (if parts ! 1 = ''suspension'' \<and> suspension (orsf_setup orsf) \<noteq> None then
        (let susp = the (suspension (orsf_setup orsf)) in
         if length parts < 3 then None
         else
           (case get_value_corner susp (parts ! 2) of
              Some corner \<Rightarrow>
                if length parts \<ge> 4 then
                  (if parts ! 3 = ''camber_deg'' then camber_deg corner
                   else if parts ! 3 = ''toe_deg'' then toe_deg corner
                   else if parts ! 3 = ''caster_deg'' then caster_deg corner
                   else if parts ! 3 = ''spring_rate_n_mm'' then spring_rate_n_mm corner
                   else if parts ! 3 = ''ride_height_mm'' then ride_height_mm corner
                   else if parts ! 3 = ''bumpstop_gap_mm'' then bumpstop_gap_mm corner
                   else if parts ! 3 = ''bumpstop_rate_n_mm'' then bumpstop_rate_n_mm corner
                   else if parts ! 3 = ''damper_bump_slow_n_s_m''
                     then damper_bump_slow_n_s_m corner
                   else if parts ! 3 = ''damper_bump_fast_n_s_m''
                     then damper_bump_fast_n_s_m corner
                   else if parts ! 3 = ''damper_rebound_slow_n_s_m''
                     then damper_rebound_slow_n_s_m corner
                   else if parts ! 3 = ''damper_rebound_fast_n_s_m''
                     then damper_rebound_fast_n_s_m corner
                   else get_value_arbs orsf susp parts)
                else get_value_arbs orsf susp parts
            | None \<Rightarrow> get_value_arbs orsf susp parts))
      else get_value_tires orsf parts)"

definition get_value_aero :: "ORSF \<Rightarrow> string list \<Rightarrow> real option" where
  "get_value_aero orsf parts =
     (if parts ! 1 = ''aero'' \<and> aero (orsf_setup orsf) \<noteq> None then
        (let ae = the (aero (orsf_setup orsf)) in
         if length parts < 3 then None
         else if parts ! 2 = ''front_wing'' then front_wing ae
         else if parts ! 2 = ''rear_wing'' then rear_wing ae
         else if parts ! 2 = ''front_downforce_n'' then front_downforce_n ae
         else if parts ! 2 = ''rear_downforce_n'' then rear_downforce_n ae
         else if parts ! 2 = ''front_ride_height_mm'' then front_ride_height_mm ae
         else if parts ! 2 = ''rear_ride_height_mm'' then rear_ride_height_mm ae
         else if parts ! 2 = ''rake_mm'' then rake_mm ae
         else if parts ! 2 = ''brake_duct_front_pct'' then brake_duct_front_pct ae
         else if parts ! 2 = ''brake_duct_rear_pct'' then brake_duct_rear_pct ae
         else if parts ! 2 = ''radiator_opening_pct'' then radiator_opening_pct ae
         else get_value_suspension orsf parts)
      else get_value_suspension orsf parts)"

definition get_value :: "ORSF \<Rightarrow> string \<Rightarrow> real option" where
  "get_value orsf path =
     (let parts = split_path path in
      if parts = [] then None
      else if parts ! 0 \<noteq> ''setup'' then None
      else if length parts < 2 then None
      else get_value_aero orsf parts)"

subsection \<open>set_value\<close>

text \<open>\<open>set_value\<close> returns nothing and throws nothing: the model returns the document
  after the call.  Only the sections \<open>aero\<close>, \<open>tires\<close> and \<open>brakes\<close> have a branch; the
  code ends with the comment \<open>Add more sections as needed\<close>.\<close>

definition set_value :: "ORSF \<Rightarrow> string \<Rightarrow> real \<Rightarrow> ORSF" where
  "set_value orsf path v =
     (let parts = split_path path in
      if parts = [] \<or> parts ! 0 \<noteq> ''setup'' \<or> length parts < 3 then orsf
      else
        (let section = parts ! 1; field = parts ! 2 in
         if section = ''aero'' then
           (let ae = (case aero (orsf_setup orsf) of None \<Rightarrow> Aerodynamics_default | Some a \<Rightarrow> a);
                ae' =
                  (if field = ''front_wing'' then ae\<lparr>front_wing := Some v\<rparr>
                   else if field = ''rear_wing'' then ae\<lparr>rear_wing := Some v\<rparr>
                   else if field = ''front_downforce_n'' then ae\<lparr>front_downforce_n := Some v\<rparr>
                   else if field = ''rear_downforce_n'' then ae\<lparr>rear_downforce_n := Some v\<rparr>
                   else if field = ''front_ride_height_mm''
                     then ae\<lparr>front_ride_height_mm := Some v\<rparr>
                   else if field = ''rear_ride_height_mm''
                     then ae\<lparr>rear_ride_height_mm := Some v\<rparr>
                   else if field = ''rake_mm'' then ae\<lparr>rake_mm := Some v\<rparr>
                   else if field = ''brake_duct_front_pct''
                     then ae\<lparr>brake_duct_front_pct := Some v\<rparr>
                   else if field = ''brake_duct_rear_pct''
                     then ae\<lparr>brake_duct_rear_pct := Some v\<rparr>
                   else if field = ''radiator_opening_pct''
                     then ae\<lparr>radiator_opening_pct := Some v\<rparr>
                   else ae)
            in orsf\<lparr>orsf_setup := (orsf_setup orsf)\<lparr>aero := Some ae'\<rparr>\<rparr>)
         else if section = ''tires'' then
           (let ti = (case tires (orsf_setup orsf) of None \<Rightarrow> Tires_default | Some t \<Rightarrow> t);
                ti' =
                  (if field = ''pressure_fl_kpa'' then ti\<lparr>pressure_fl_kpa := Some v\<rparr>
                   else if field = ''pressure_fr_kpa'' then ti\<lparr>pressure_fr_kpa := Some v\<rparr>
                   else if field = ''pressure_rl_kpa'' then ti\<lparr>pressure_rl_kpa := Some v\<rparr>
                   else if field = ''pressure_rr_kpa'' then ti\<lparr>pressure_rr_kpa := Some v\<rparr>
                   else if field = ''stagger_mm'' then ti\<lparr>stagger_mm := Some v\<rparr>
                   else ti)
            in orsf\<lparr>orsf_setup := (orsf_setup orsf)\<lparr>tires := Some ti'\<rparr>\<rparr>)
         else if section = ''brakes'' then
           (let br = (case brakes (orsf_setup orsf) of None \<Rightarrow> Brakes_default | Some b \<Rightarrow> b);
                br' =
                  (if field = ''brake_bias_pct'' then br\<lparr>brake_bias_pct := Some v\<rparr>
                   else if field = ''max_force_n'' then br\<lparr>max_force_n := Some v\<rparr>
                   else br)
            in orsf\<lparr>orsf_setup := (orsf_setup orsf)\<lparr>brakes := Some br'\<rparr>\<rparr>)
         else orsf))"

subsection \<open>flatten_orsf and inflate_orsf\<close>

definition add_optional :: "FlatSetup \<Rightarrow> string \<Rightarrow> real option \<Rightarrow> FlatSetup" where
  "add_optional flat key val = (case val of None \<Rightarrow> flat | Some x \<Rightarrow> flat(key \<mapsto> x))"

definition add_optional_int :: "FlatSetup \<Rightarrow> string \<Rightarrow> int option \<Rightarrow> FlatSetup" where
  "add_optional_int flat key val = add_optional flat key (map_option real_of_int val)"

definition flatten_aero :: "Aerodynamics option \<Rightarrow> FlatSetup \<Rightarrow> FlatSetup" where
  "flatten_aero ao flat0 =
     (case ao of None \<Rightarrow> flat0
      | Some a \<Rightarrow>
        (let flat = add_optional flat0 ''setup.aero.front_wing'' (front_wing a);
             flat = add_optional flat ''setup.aero.rear_wing'' (rear_wing a);
             flat = add_optional flat ''setup.aero.front_downforce_n'' (front_downforce_n a);
             flat = add_optional flat ''setup.aero.rear_downforce_n'' (rear_downforce_n a);
             flat = add_optional flat ''setup.aero.front_ride_height_mm''
                      (front_ride_height_mm a);
             flat = add_optional flat ''setup.aero.rear_ride_height_mm''
                      (rear_ride_height_mm a);
             flat = add_optional flat ''setup.aero.rake_mm'' (rake_mm a);
             flat = add_optional flat ''setup.aero.brake_duct_front_pct''
                      (brake_duct_front_pct a);
             flat = add_optional flat ''setup.aero.brake_duct_rear_pct''
                      (brake_duct_rear_pct a)
         in add_optional flat ''setup.aero.radiator_opening_pct'' (radiator_opening_pct a)))"

definition flatten_corner :: "CornerSuspension option \<Rightarrow> string \<Rightarrow> FlatSetup \<Rightarrow> FlatSetup" where
  "flatten_corner co prefix flat0 =
     (case co of None \<Rightarrow> flat0
      | Some c \<Rightarrow>
        (let flat = add_optional flat0 (prefix @ ''.camber_deg'') (camber_deg c);
             flat = add_optional flat (prefix @ ''.toe_deg'') (toe_deg c);
             flat = add_optional flat (prefix @ ''.caster_deg'') (caster_deg c);
             flat = add_optional flat (prefix @ ''.spring_rate_n_mm'') (spring_rate_n_mm c);
             flat = add_optional flat (prefix @ ''.ride_height_mm'') (ride_height_mm c);
             flat = add_optional flat (prefix @ ''.bumpstop_gap_mm'') (bumpstop_gap_mm c);
             flat = add_optional flat (prefix @ ''.bumpstop_rate_n_mm'') (bumpstop_rate_n_mm c);
             flat = add_optional flat (prefix @ ''.packer_mm'') (packer_mm c);
             flat = add_optional flat (prefix @ ''.damper_bump_slow_n_s_m'')
                      (damper_bump_slow_n_s_m c);
             flat = add_optional flat (prefix @ ''.damper_bump_fast_n_s_m'')
                      (damper_bump_fast_n_s_m c);
             flat = add_optional flat (prefix @ ''.damper_rebound_slow_n_s_m'')
                      (damper_rebound_slow_n_s_m c)
         in add_optional flat (prefix @ ''.damper_rebound_fast_n_s_m'')
              (damper_rebound_fast_n_s_m c)))"

definition flatten_suspension :: "Suspension option \<Rightarrow> FlatSetup \<Rightarrow> FlatSetup" where
  "flatten_suspension so flat0 =
     (case so of None \<Rightarrow> flat0
      | Some s \<Rightarrow>
        (let flat = flatten_corner (front_left s) ''setup.suspension.front_left'' flat0;
             flat = flatten_corner (front_right s) ''setup.suspension.front_right'' flat;
             flat = flatten_corner (rear_left s) ''setup.suspension.rear_left'' flat;
             flat = flatten_corner (rear_right s) ''setup.suspension.rear_right'' flat;
             flat = add_optional flat ''setup.suspension.front_arb'' (front_arb s);
             flat = add_optional flat ''setup.suspension.rear_arb'' (rear_arb s);
             flat = add_optional flat ''setup.suspension.heave_spring_n_mm''
                      (heave_spring_n_mm s)
         in add_optional flat ''setup.suspension.heave_packer_mm'' (heave_packer_mm s)))"

definition flatten_tires :: "Tires option \<Rightarrow> FlatSetup \<Rightarrow> FlatSetup" where
  "flatten_tires tio flat0 =
     (case tio of None \<Rightarrow> flat0
      | Some t \<Rightarrow>
        (let flat = add_optional flat0 ''setup.tires.pressure_fl_kpa'' (pressure_fl_kpa t);
             flat = add_optional flat ''setup.tires.pressure_fr_kpa'' (pressure_fr_kpa t);
             flat = add_optional flat ''setup.tires.pressure_rl_kpa'' (pressure_rl_kpa t);
             flat = add_optional flat ''setup.tires.pressure_rr_kpa'' (pressure_rr_kpa t)
         in add_optional flat ''setup.tires.stagger_mm'' (stagger_mm t)))"

definition flatten_drivetrain :: "Drivetrain option \<Rightarrow> FlatSetup \<Rightarrow> FlatSetup" where
  "flatten_drivetrain dto flat0 =
     (case dto of None \<Rightarrow> flat0
      | Some d \<Rightarrow>
        (let flat = add_optional flat0 ''setup.drivetrain.diff_preload_nm'' (diff_preload_nm d);
             flat = add_optional flat ''setup.drivetrain.diff_power_ramp_pct''
                      (diff_power_ramp_pct d);
             flat = add_optional flat ''setup.drivetrain.diff_coast_ramp_pct''
                      (diff_coast_ramp_pct d);
             flat = add_optional flat ''setup.drivetrain.final_drive_ratio''
                      (final_drive_ratio d)
         in add_optional_int flat ''setup.drivetrain.lsd_clutch_plates''
              (lsd_clutch_plates d)))"

text \<open>The loop of \<open>flatten_gearing\<close> over the indices \<open>i\<close> to \<open>size - 1\<close>.\<close>

fun flatten_gear_ratios :: "real list \<Rightarrow> nat \<Rightarrow> FlatSetup \<Rightarrow> FlatSetup" where
  "flatten_gear_ratios [] i flat = flat"
| "flatten_gear_ratios (r # rs) i flat =
     flatten_gear_ratios rs (Suc i) (flat(''setup.gearing.gear_'' @ to_string_nat i \<mapsto> r))"

definition flatten_gearing :: "Gearing option \<Rightarrow> FlatSetup \<Rightarrow> FlatSetup" where
  "flatten_gearing go flat0 =
     (case go of None \<Rightarrow> flat0
      | Some g \<Rightarrow>
        (let flat = (case gear_ratios g of None \<Rightarrow> flat0
                     | Some ratios \<Rightarrow> flatten_gear_ratios ratios 0 flat0)
         in add_optional flat ''setup.gearing.reverse_ratio'' (reverse_ratio g)))"

definition flatten_brakes :: "Brakes option \<Rightarrow> FlatSetup \<Rightarrow> FlatSetup" where
  "flatten_brakes bo flat0 =
     (case bo of None \<Rightarrow> flat0
      | Some b \<Rightarrow>
        (let flat = add_optional flat0 ''setup.brakes.brake_bias_pct'' (brake_bias_pct b)
         in add_optional flat ''setup.brakes.max_force_n'' (max_force_n b)))"

definition flatten_electronics :: "Electronics option \<Rightarrow> FlatSetup \<Rightarrow> FlatSetup" where
  "flatten_electronics eo flat0 =
     (case eo of None \<Rightarrow> flat0
      | Some e \<Rightarrow>
        (let flat = add_optional_int flat0 ''setup.electronics.tc_level'' (tc_level e);
             flat = add_optional_int flat ''setup.electronics.tc2_level'' (tc2_level e);
             flat = add_optional_int flat ''setup.electronics.abs_level'' (abs_level e);
             flat = add_optional_int flat ''setup.electronics.engine_map'' (engine_map e);
             flat = add_optional_int flat ''setup.electronics.engine_brake_level''
                      (engine_brake_level e)
         in add_optional flat ''setup.electronics.pit_limiter_kph'' (pit_limiter_kph e)))"

definition flatten_fuel :: "Fuel option \<Rightarrow> FlatSetup \<Rightarrow> FlatSetup" where
  "flatten_fuel fo flat0 =
     (case fo of None \<Rightarrow> flat0
      | Some f \<Rightarrow>
        (let flat = add_optional flat0 ''setup.fuel.start_fuel_l'' (start_fuel_l f);
             flat = add_optional flat ''setup.fuel.per_lap_consumption_l''
                      (per_lap_consumption_l f);
             flat = add_optional_int flat ''setup.fuel.stint_target_laps''
                      (stint_target_laps f)
         in add_optional_int flat ''setup.fuel.mixture_setting'' (mixture_setting f)))"

definition flatten_orsf :: "ORSF \<Rightarrow> FlatSetup" where
  "flatten_orsf orsf =
     (let flat = flatten_aero (aero (orsf_setup orsf)) Map.empty;
          flat = flatten_suspension (suspension (orsf_setup orsf)) flat;
          flat = flatten_tires (tires (orsf_setup orsf)) flat;
          flat = flatten_drivetrain (drivetrain (orsf_setup orsf)) flat;
          flat = flatten_gearing (gearing (orsf_setup orsf)) flat;
          flat = flatten_brakes (brakes (orsf_setup orsf)) flat;
          flat = flatten_electronics (electronics (orsf_setup orsf)) flat
      in flatten_fuel (fuel (orsf_setup orsf)) flat)"



subsection \<open>map_to_native and map_to_orsf\<close>

text \<open>Every failure of the library is a thrown \<open>std::runtime_error\<close> carrying a message.
  A \<open>TransformFunc\<close> is a \<open>std::function\<close> from double to double; it may throw (as
  \<open>Transform::invert\<close> does), so it returns an exception or a value.\<close>

datatype exn = runtime_error string

type_synonym TransformFunc = "real \<Rightarrow> exn + real"






section \<open>Lookup table converter (utils.hpp, utils.cpp)\<close>

record LUTEntry =
  lut_input :: real
  lut_output :: real

text \<open>The constructor and \<open>reverse_lookup\<close> call \<open>std::sort\<close>.  The C++ standard
  promises of \<open>std::sort\<close> that the range afterwards holds the same elements, ordered so
  that no later element compares less than an earlier one; it promises nothing about the
  relative order of elements that compare equivalent.  \<open>std_sort\<close> is that contract, as a
  relation between the range before and after.\<close>

definition std_sort :: "('a \<Rightarrow> 'a \<Rightarrow> bool) \<Rightarrow> 'a list \<Rightarrow> 'a list \<Rightarrow> bool" where
  "std_sort cmp before after \<longleftrightarrow>
     mset after = mset before \<and> sorted_wrt (\<lambda>a b. \<not> cmp b a) after"

text \<open>The comparator of both calls: \<open>a.input < b.input\<close>.\<close>

definition lut_less :: "LUTEntry \<Rightarrow> LUTEntry \<Rightarrow> bool" where
  "lut_less a b \<longleftrightarrow> lut_input a < lut_input b"

text \<open>\<open>LookupTableConverter table stored\<close>: constructing a converter from \<open>table\<close> may
  leave \<open>stored\<close> as the member \<open>table_\<close>.\<close>

definition LookupTableConverter :: "LUTEntry list \<Rightarrow> LUTEntry list \<Rightarrow> bool" where
  "LookupTableConverter table stored \<longleftrightarrow> std_sort lut_less table stored"

definition lerp :: "real \<Rightarrow> real \<Rightarrow> real \<Rightarrow> real \<Rightarrow> real \<Rightarrow> real" where
  "lerp x x0 x1 y0 y1 =
     (if \<bar>x1 - x0\<bar> < 1 / 10 ^ 10 then y0 else y0 + (y1 - y0) * (x - x0) / (x1 - x0))"

text \<open>The search loop over the segments \<open>i, i + 1\<close>: the first segment that brackets the
  value returns; \<open>None\<close> when the loop runs to its end.\<close>

fun find_segment :: "LUTEntry list \<Rightarrow> real \<Rightarrow> real option" where
  "find_segment (a # b # rest) v =
     (if v \<ge> lut_input a \<and> v \<le> lut_input b
      then Some (lerp v (lut_input a) (lut_input b) (lut_output a) (lut_output b))
      else find_segment (b # rest) v)"
| "find_segment [a] v = None"
| "find_segment [] v = None"

definition interpolate :: "LUTEntry list \<Rightarrow> real \<Rightarrow> exn + real" where
  "interpolate stored v =
     (if stored = [] then Inl (runtime_error ''Empty lookup table'')
      else if v \<le> lut_input (hd stored) then Inr (lut_output (hd stored))
      else if v \<ge> lut_input (last stored) then Inr (lut_output (last stored))
      else (case find_segment stored v of
              Some r \<Rightarrow> Inr r
            | None \<Rightarrow> Inr (lut_output (last stored))))"

text \<open>\<open>reverse_lookup\<close> swaps the columns, sorts the swapped table with \<open>std::sort\<close> and
  runs the same clamp-and-search code on it.\<close>

definition reverse_entry :: "LUTEntry \<Rightarrow> LUTEntry" where
  "reverse_entry entry = \<lparr>lut_input = lut_output entry, lut_output = lut_input entry\<rparr>"

inductive reverse_lookup :: "LUTEntry list \<Rightarrow> real \<Rightarrow> exn + real \<Rightarrow> bool" where
  reverse_empty:
    "stored = [] \<Longrightarrow> reverse_lookup stored v (Inl (runtime_error ''Empty lookup table''))"
| reverse_sorted:
    "stored \<noteq> [] \<Longrightarrow> std_sort lut_less (map reverse_entry stored) reverse_table \<Longrightarrow>
     reverse_lookup stored v (interpolate reverse_table v)"

section \<open>Transforms (utils.cpp)\<close>

definition identity :: TransformFunc where
  "identity = (\<lambda>x. Inr x)"


definition lookup_table :: "LUTEntry list \<Rightarrow> TransformFunc" where
  "lookup_table lut = (\<lambda>x. interpolate lut x)"

fun compose :: "TransformFunc list \<Rightarrow> TransformFunc" where
  "compose [] x = Inr x"
| "compose (transform # transforms) x =
     (case transform x of Inl e \<Rightarrow> Inl e | Inr y \<Rightarrow> compose transforms y)"

section \<open>Date and time utilities (utils.cpp)\<close>

text \<open>\<open>is_valid_iso8601\<close> matches the whole string against the regular expression
  \<^verbatim>\<open>\d{4}-\d{2}-\d{2}T\d{2}:\d{2}:\d{2}(\.\d{3})?(Z|[+-]\d{2}:\d{2})?\<close>.
  The matcher below reads a fixed pattern of digits and literal characters off the front
  of a string and returns the rest.\<close>

datatype pat = Digit | Lit char

definition is_digit :: "char \<Rightarrow> bool" where
  "is_digit c \<longleftrightarrow> c \<in> set ''0123456789''"

fun match_prefix :: "pat list \<Rightarrow> string \<Rightarrow> string option" where
  "match_prefix [] s = Some s"
| "match_prefix (p # ps) [] = None"
| "match_prefix (Digit # ps) (c # cs) = (if is_digit c then match_prefix ps cs else None)"
| "match_prefix (Lit l # ps) (c # cs) = (if c = l then match_prefix ps cs else None)"

definition date_time_pat :: "pat list" where
  "date_time_pat =
     [Digit, Digit, Digit, Digit, Lit (CHR ''-''), Digit, Digit, Lit (CHR ''-''), Digit, Digit,
      Lit (CHR ''T''), Digit, Digit, Lit (CHR '':''), Digit, Digit, Lit (CHR '':''),
      Digit, Digit]"

definition millis_pat :: "pat list" where
  "millis_pat = [Lit (CHR ''.''), Digit, Digit, Digit]"

definition zone_pat :: "pat list" where
  "zone_pat = [Digit, Digit, Lit (CHR '':''), Digit, Digit]"

definition is_valid_iso8601 :: "string \<Rightarrow> bool" where
  "is_valid_iso8601 timestamp =
     (case match_prefix date_time_pat timestamp of
        None \<Rightarrow> False
      | Some rest \<Rightarrow>
          (let rest' = (case match_prefix millis_pat rest of Some r \<Rightarrow> r | None \<Rightarrow> rest)
           in rest' = [] \<or> rest' = ''Z''
              \<or> match_prefix (Lit (CHR ''+'') # zone_pat) rest' = Some []
              \<or> match_prefix (Lit (CHR ''-'') # zone_pat) rest' = Some []))"

section \<open>The validator (validator.hpp, validator.cpp)\<close>

datatype ValidationSeverity = Error | Warning | Info

datatype ValidationCode =
  Required | OutOfRange | InvalidFormat | Incompatible | Deprecated | SchemaInvalid

record ValidationError =
  severity :: ValidationSeverity
  code :: ValidationCode
  field :: string
  message :: string
  expected :: "string option"
  actual :: "string option"

text \<open>The values the validator checks are doubles; a finite double is the real number it
  denotes, and the comparisons of the validator are exact on them.  What the validator does
  with a double beyond comparing it is left to the platform and is a parameter of the model:
  the two renderings into the \<open>expected\<close> and \<open>actual\<close> texts (\<open>std::to_string\<close> and
  \<open>operator<<\<close> of an output stream), and the rounded addition and subtraction of binary64
  that the cross-field check uses.\<close>

record DoubleText =
  to_string_double :: "real \<Rightarrow> string"
  stream_double :: "real \<Rightarrow> string"
  double_add :: "real \<Rightarrow> real \<Rightarrow> real"
  double_sub :: "real \<Rightarrow> real \<Rightarrow> real"

text \<open>Every function below takes the vector \<open>errors\<close> and returns it with the findings
  of the function pushed at the back.\<close>

definition check_required :: "string \<Rightarrow> bool \<Rightarrow> ValidationError list \<Rightarrow> ValidationError list" where
  "check_required fld is_present errors =
     (if \<not> is_present
      then errors @ [\<lparr>severity = Error, code = Required, field = fld,
                      message = ''Required field is missing'', expected = None, actual = None\<rparr>]
      else errors)"

definition check_range :: "DoubleText \<Rightarrow> string \<Rightarrow> real \<Rightarrow> real \<Rightarrow> real \<Rightarrow> ValidationError list \<Rightarrow>
    ValidationSeverity \<Rightarrow> ValidationError list" where
  "check_range T fld v lo hi errors sev =
     (if v < lo \<or> v > hi
      then errors @ [\<lparr>severity = sev, code = OutOfRange, field = fld,
                      message = ''Value out of range'',
                      expected = Some (stream_double T lo @ '' to '' @ stream_double T hi),
                      actual = Some (to_string_double T v)\<rparr>]
      else errors)"

definition check_percentage :: "DoubleText \<Rightarrow> string \<Rightarrow> real \<Rightarrow> ValidationError list \<Rightarrow> ValidationError list" where
  "check_percentage T fld v errors = check_range T fld v 0 100 errors Error"

definition check_positive :: "DoubleText \<Rightarrow> string \<Rightarrow> real \<Rightarrow> ValidationError list \<Rightarrow> ValidationError list" where
  "check_positive T fld v errors =
     (if v \<le> 0
      then errors @ [\<lparr>severity = Error, code = OutOfRange, field = fld,
                      message = ''Value must be positive'', expected = Some ''> 0'',
                      actual = Some (to_string_double T v)\<rparr>]
      else errors)"

definition check_non_negative :: "DoubleText \<Rightarrow> string \<Rightarrow> real \<Rightarrow> ValidationError list \<Rightarrow> ValidationError list" where
  "check_non_negative T fld v errors =
     (if v < 0
      then errors @ [\<lparr>severity = Error, code = OutOfRange, field = fld,
                      message = ''Value must be non-negative'', expected = Some ''>= 0'',
                      actual = Some (to_string_double T v)\<rparr>]
      else errors)"

definition check_iso8601 :: "string \<Rightarrow> string \<Rightarrow> ValidationError list \<Rightarrow> ValidationError list" where
  "check_iso8601 fld v errors =
     (if \<not> is_valid_iso8601 v
      then errors @ [\<lparr>severity = Warning, code = InvalidFormat, field = fld,
                      message = ''Invalid ISO8601 timestamp format'',
                      expected = Some ''YYYY-MM-DDTHH:MM:SS(.sss)?(Z|[+-]HH:MM)?'',
                      actual = Some v\<rparr>]
      else errors)"

definition validate_schema :: "ORSF \<Rightarrow> ValidationError list \<Rightarrow> ValidationError list" where
  "validate_schema orsf errors =
     (if schema orsf \<noteq> ''orsf://v1''
      then errors @ [\<lparr>severity = Error, code = SchemaInvalid, field = ''schema'',
                      message = ''Invalid schema version'', expected = Some ''orsf://v1'',
                      actual = Some (schema orsf)\<rparr>]
      else errors)"

definition validate_metadata :: "Metadata \<Rightarrow> ValidationError list \<Rightarrow> ValidationError list" where
  "validate_metadata md errors0 =
     (let errors = check_required ''metadata.id'' (metadata_id md \<noteq> []) errors0;
          errors = check_required ''metadata.name'' (name md \<noteq> []) errors;
          errors = check_required ''metadata.created_at'' (created_at md \<noteq> []) errors;
          errors = (if created_at md \<noteq> []
                    then check_iso8601 ''metadata.created_at'' (created_at md) errors
                    else errors);
          errors = (case updated_at md of
                      None \<Rightarrow> errors
                    | Some u \<Rightarrow> if u \<noteq> [] then check_iso8601 ''metadata.updated_at'' u errors
                                else errors)
      in (case updated_at md of
            None \<Rightarrow> errors
          | Some u \<Rightarrow>
              if u < created_at md
              then errors @ [\<lparr>severity = Warning, code = Incompatible,
                              field = ''metadata.updated_at'',
                              message = ''Updated timestamp is before created timestamp'',
                              expected = None, actual = None\<rparr>]
              else errors))"

definition valid_classes :: "string list" where
  "valid_classes = [''GT3'', ''GTE'', ''LMP2'', ''LMDh'', ''GT4'', ''TCR'',
                    ''F1'', ''F2'', ''F3'', ''F4'', ''Formula'']"

definition validate_car :: "Car \<Rightarrow> ValidationError list \<Rightarrow> ValidationError list" where
  "validate_car c errors0 =
     (let errors = check_required ''car.make'' (car_make c \<noteq> []) errors0;
          errors = check_required ''car.model'' (model c \<noteq> []) errors
      in (case car_class c of
            None \<Rightarrow> errors
          | Some cls \<Rightarrow>
              if \<not> (cls \<in> set valid_classes)
              then errors @ [\<lparr>severity = Warning, code = InvalidFormat, field = ''car.class'',
                              message = ''Unknown car class: '' @ cls,
                              expected = None, actual = None\<rparr>]
              else errors))"

definition valid_levels :: "string list" where
  "valid_levels = [''green'', ''low'', ''medium'', ''high'', ''saturated'']"

definition validate_context :: "DoubleText \<Rightarrow> Context option \<Rightarrow> ValidationError list \<Rightarrow> ValidationError list" where
  "validate_context T co errors0 =
     (case co of
        None \<Rightarrow> errors0
      | Some ctx \<Rightarrow>
          (let errors = (case ambient_temp_c ctx of None \<Rightarrow> errors0
                         | Some x \<Rightarrow> check_range T ''context.ambient_temp_c'' x (- 50) 70
                                      errors0 Warning);
               errors = (case track_temp_c ctx of None \<Rightarrow> errors
                         | Some x \<Rightarrow> check_range T ''context.track_temp_c'' x (- 20) 80
                                      errors Warning);
               errors = (case wetness ctx of None \<Rightarrow> errors
                         | Some x \<Rightarrow> check_range T ''context.wetness'' x 0 1 errors Error)
           in (case rubber ctx of
                 None \<Rightarrow> errors
               | Some lvl \<Rightarrow>
                   if \<not> (lvl \<in> set valid_levels)
                   then errors @ [\<lparr>severity = Warning, code = InvalidFormat,
                                   field = ''context.rubber'',
                                   message = ''Unknown rubber level: '' @ lvl,
                                   expected = None, actual = None\<rparr>]
                   else errors)))"

definition validate_aero :: "DoubleText \<Rightarrow> Aerodynamics option \<Rightarrow> ValidationError list \<Rightarrow> ValidationError list" where
  "validate_aero T ao errors0 =
     (case ao of
        None \<Rightarrow> errors0
      | Some a \<Rightarrow>
          (let errors = (case front_ride_height_mm a of None \<Rightarrow> errors0
                         | Some x \<Rightarrow> check_positive T ''setup.aero.front_ride_height_mm'' x errors0);
               errors = (case rear_ride_height_mm a of None \<Rightarrow> errors
                         | Some x \<Rightarrow> check_positive T ''setup.aero.rear_ride_height_mm'' x errors);
               errors = (case brake_duct_front_pct a of None \<Rightarrow> errors
                         | Some x \<Rightarrow> check_percentage T ''setup.aero.brake_duct_front_pct'' x errors);
               errors = (case brake_duct_rear_pct a of None \<Rightarrow> errors
                         | Some x \<Rightarrow> check_percentage T ''setup.aero.brake_duct_rear_pct'' x errors);
               errors = (case radiator_opening_pct a of None \<Rightarrow> errors
                         | Some x \<Rightarrow> check_percentage T ''setup.aero.radiator_opening_pct'' x errors);
               errors = (case front_downforce_n a of None \<Rightarrow> errors
                         | Some x \<Rightarrow> check_non_negative T ''setup.aero.front_downforce_n'' x errors)
           in (case rear_downforce_n a of None \<Rightarrow> errors
               | Some x \<Rightarrow> check_non_negative T ''setup.aero.rear_downforce_n'' x errors)))"

definition validate_corner_suspension :: "DoubleText \<Rightarrow> CornerSuspension option \<Rightarrow> string \<Rightarrow>
    ValidationError list \<Rightarrow> ValidationError list" where
  "validate_corner_suspension T co corner_name errors0 =
     (case co of
        None \<Rightarrow> errors0
      | Some c \<Rightarrow>
          (let errors = (case camber_deg c of None \<Rightarrow> errors0
                         | Some x \<Rightarrow> check_range T (corner_name @ ''.camber_deg'') x (- 10) 5
                                      errors0 Warning);
               errors = (case spring_rate_n_mm c of None \<Rightarrow> errors
                         | Some x \<Rightarrow> check_positive T (corner_name @ ''.spring_rate_n_mm'') x errors);
               errors = (case ride_height_mm c of None \<Rightarrow> errors
                         | Some x \<Rightarrow> check_positive T (corner_name @ ''.ride_height_mm'') x errors);
               errors = (case bumpstop_gap_mm c of None \<Rightarrow> errors
                         | Some x \<Rightarrow> check_non_negative T (corner_name @ ''.bumpstop_gap_mm'') x errors);
               errors = (case bumpstop_rate_n_mm c of None \<Rightarrow> errors
                         | Some x \<Rightarrow> check_positive T (corner_name @ ''.bumpstop_rate_n_mm'') x errors);
               errors = (case damper_bump_slow_n_s_m c of None \<Rightarrow> errors
                         | Some x \<Rightarrow> check_non_negative T (corner_name @ ''.damper_bump_slow_n_s_m'')
                                      x errors);
               errors = (case damper_bump_fast_n_s_m c of None \<Rightarrow> errors
                         | Some x \<Rightarrow> check_non_negative T (corner_name @ ''.damper_bump_fast_n_s_m'')
                                      x errors);
               errors = (case damper_rebound_slow_n_s_m c of None \<Rightarrow> errors
                         | Some x \<Rightarrow> check_non_negative T
                                      (corner_name @ ''.damper_rebound_slow_n_s_m'') x errors)
           in (case damper_rebound_fast_n_s_m c of None \<Rightarrow> errors
               | Some x \<Rightarrow> check_non_negative T (corner_name @ ''.damper_rebound_fast_n_s_m'')
                            x errors)))"

definition validate_suspension :: "DoubleText \<Rightarrow> Suspension option \<Rightarrow> ValidationError list \<Rightarrow> ValidationError list" where
  "validate_suspension T so errors0 =
     (case so of
        None \<Rightarrow> errors0
      | Some s \<Rightarrow>
          (let errors = validate_corner_suspension T (front_left s)
                          ''setup.suspension.front_left'' errors0;
               errors = validate_corner_suspension T (front_right s)
                          ''setup.suspension.front_right'' errors;
               errors = validate_corner_suspension T (rear_left s)
                          ''setup.suspension.rear_left'' errors;
               errors = validate_corner_suspension T (rear_right s)
                          ''setup.suspension.rear_right'' errors
           in (case heave_spring_n_mm s of None \<Rightarrow> errors
               | Some x \<Rightarrow> check_positive T ''setup.suspension.heave_spring_n_mm'' x errors)))"

definition validate_tires :: "DoubleText \<Rightarrow> Tires option \<Rightarrow> ValidationError list \<Rightarrow> ValidationError list" where
  "validate_tires T tio errors0 =
     (case tio of
        None \<Rightarrow> errors0
      | Some t \<Rightarrow>
          (let errors = (case pressure_fl_kpa t of None \<Rightarrow> errors0
                         | Some x \<Rightarrow> check_range T ''setup.tires.pressure_fl_kpa'' x 50 400
                                      errors0 Warning);
               errors = (case pressure_fr_kpa t of None \<Rightarrow> errors
                         | Some x \<Rightarrow> check_range T ''setup.tires.pressure_fr_kpa'' x 50 400
                                      errors Warning);
               errors = (case pressure_rl_kpa t of None \<Rightarrow> errors
                         | Some x \<Rightarrow> check_range T ''setup.tires.pressure_rl_kpa'' x 50 400
                                      errors Warning)
           in (case pressure_rr_kpa t of None \<Rightarrow> errors
               | Some x \<Rightarrow> check_range T ''setup.tires.pressure_rr_kpa'' x 50 400
                            errors Warning)))"

definition validate_drivetrain :: "DoubleText \<Rightarrow> Drivetrain option \<Rightarrow> ValidationError list \<Rightarrow> ValidationError list" where
  "validate_drivetrain T dto errors0 =
     (case dto of
        None \<Rightarrow> errors0
      | Some d \<Rightarrow>
          (let errors = (case diff_preload_nm d of None \<Rightarrow> errors0
                         | Some x \<Rightarrow> check_non_negative T ''setup.drivetrain.diff_preload_nm'' x
                                      errors0);
               errors = (case diff_power_ramp_pct d of None \<Rightarrow> errors
                         | Some x \<Rightarrow> check_percentage T ''setup.drivetrain.diff_power_ramp_pct'' x
                                      errors);
               errors = (case diff_coast_ramp_pct d of None \<Rightarrow> errors
                         | Some x \<Rightarrow> check_percentage T ''setup.drivetrain.diff_coast_ramp_pct'' x
                                      errors);
               errors = (case final_drive_ratio d of None \<Rightarrow> errors
                         | Some x \<Rightarrow> check_positive T ''setup.drivetrain.final_drive_ratio'' x
                                      errors)
           in (case lsd_clutch_plates d of
                 None \<Rightarrow> errors
               | Some n \<Rightarrow>
                   if n \<le> 0
                   then errors @ [\<lparr>severity = Error, code = OutOfRange,
                                   field = ''setup.drivetrain.lsd_clutch_plates'',
                                   message = ''LSD clutch plates must be positive'',
                                   expected = None, actual = None\<rparr>]
                   else errors)))"

text \<open>The loop of \<open>validate_gearing\<close> over the indices \<open>i\<close> to \<open>size - 1\<close>.\<close>

fun validate_gear_ratios :: "real list \<Rightarrow> nat \<Rightarrow> ValidationError list \<Rightarrow> ValidationError list" where
  "validate_gear_ratios [] i errors = errors"
| "validate_gear_ratios (r # rs) i errors =
     validate_gear_ratios rs (Suc i)
       (if r \<le> 0
        then errors @ [\<lparr>severity = Error, code = OutOfRange,
                        field = ''setup.gearing.gear_ratios['' @ to_string_nat i @ '']'',
                        message = ''Gear ratio must be positive'',
                        expected = None, actual = None\<rparr>]
        else errors)"

definition validate_gearing :: "DoubleText \<Rightarrow> Gearing option \<Rightarrow> ValidationError list \<Rightarrow> ValidationError list" where
  "validate_gearing T go errors0 =
     (case go of
        None \<Rightarrow> errors0
      | Some g \<Rightarrow>
          (let errors =
                 (case gear_ratios g of
                    None \<Rightarrow> errors0
                  | Some ratios \<Rightarrow>
                      (let errors =
                             (if ratios = []
                              then errors0 @ [\<lparr>severity = Warning, code = InvalidFormat,
                                               field = ''setup.gearing.gear_ratios'',
                                               message = ''Gear ratios array is empty'',
                                               expected = None, actual = None\<rparr>]
                              else errors0)
                       in validate_gear_ratios ratios 0 errors))
           in (case reverse_ratio g of None \<Rightarrow> errors
               | Some x \<Rightarrow> check_positive T ''setup.gearing.reverse_ratio'' x errors)))"

definition validate_brakes :: "DoubleText \<Rightarrow> Brakes option \<Rightarrow> ValidationError list \<Rightarrow> ValidationError list" where
  "validate_brakes T bo errors0 =
     (case bo of
        None \<Rightarrow> errors0
      | Some b \<Rightarrow>
          (let errors = (case brake_bias_pct b of None \<Rightarrow> errors0
                         | Some x \<Rightarrow> check_percentage T ''setup.brakes.brake_bias_pct'' x errors0)
           in (case max_force_n b of None \<Rightarrow> errors
               | Some x \<Rightarrow> check_positive T ''setup.brakes.max_force_n'' x errors)))"

definition validate_electronics :: "DoubleText \<Rightarrow> Electronics option \<Rightarrow> ValidationError list \<Rightarrow> ValidationError list" where
  "validate_electronics T eo errors =
     (case eo of
        None \<Rightarrow> errors
      | Some e \<Rightarrow>
          (case pit_limiter_kph e of None \<Rightarrow> errors
           | Some x \<Rightarrow> check_positive T ''setup.electronics.pit_limiter_kph'' x errors))"

definition validate_fuel :: "DoubleText \<Rightarrow> Fuel option \<Rightarrow> ValidationError list \<Rightarrow> ValidationError list" where
  "validate_fuel T fo errors0 =
     (case fo of
        None \<Rightarrow> errors0
      | Some f \<Rightarrow>
          (let errors = (case start_fuel_l f of None \<Rightarrow> errors0
                         | Some x \<Rightarrow> check_non_negative T ''setup.fuel.start_fuel_l'' x errors0);
               errors = (case per_lap_consumption_l f of None \<Rightarrow> errors
                         | Some x \<Rightarrow> check_positive T ''setup.fuel.per_lap_consumption_l'' x errors)
           in (case stint_target_laps f of
                 None \<Rightarrow> errors
               | Some n \<Rightarrow>
                   if n \<le> 0
                   then errors @ [\<lparr>severity = Error, code = OutOfRange,
                                   field = ''setup.fuel.stint_target_laps'',
                                   message = ''Stint target laps must be positive'',
                                   expected = None, actual = None\<rparr>]
                   else errors)))"

definition validate_setup :: "DoubleText \<Rightarrow> Setup \<Rightarrow> ValidationError list \<Rightarrow> ValidationError list" where
  "validate_setup T s errors0 =
     (let errors = validate_aero T (aero s) errors0;
          errors = validate_suspension T (suspension s) errors;
          errors = validate_tires T (tires s) errors;
          errors = validate_drivetrain T (drivetrain s) errors;
          errors = validate_gearing T (gearing s) errors;
          errors = validate_brakes T (brakes s) errors;
          errors = validate_electronics T (electronics s) errors
      in validate_fuel T (fuel s) errors)"

definition validate_cross_field :: "DoubleText \<Rightarrow> ORSF \<Rightarrow> ValidationError list \<Rightarrow> ValidationError list" where
  "validate_cross_field T orsf errors0 =
     (case orsf_context orsf of
        None \<Rightarrow> errors0
      | Some ctx \<Rightarrow>
          (case ambient_temp_c ctx of
             None \<Rightarrow> errors0
           | Some ambient \<Rightarrow>
               (case track_temp_c ctx of
                  None \<Rightarrow> errors0
                | Some trk \<Rightarrow>
                    (let errors =
                           (if trk < double_sub T ambient 5
                            then errors0 @ [\<lparr>severity = Warning, code = Incompatible,
                                   field = ''context.track_temp_c'',
                                   message = ''Track temperature is significantly lower than ambient temperature'',
                                   expected = None, actual = None\<rparr>]
                            else errors0)
                     in (if trk > double_add T ambient 40
                         then errors @ [\<lparr>severity = Warning, code = Incompatible,
                                field = ''context.track_temp_c'',
                                message = ''Track temperature is unusually high compared to ambient'',
                                expected = None, actual = None\<rparr>]
                         else errors)))))"

definition validate :: "DoubleText \<Rightarrow> ORSF \<Rightarrow> ValidationError list" where
  "validate T orsf =
     (let errors = validate_schema orsf [];
          errors = validate_metadata (metadata orsf) errors;
          errors = validate_car (car orsf) errors;
          errors = validate_context T (orsf_context orsf) errors;
          errors = validate_setup T (orsf_setup orsf) errors
      in validate_cross_field T orsf errors)"

subsection \<open>What each check finds on its own\<close>

text \<open>The validator threads one vector through all its checks.  The definitions below
  state, without any vector of earlier findings, what each check of the validator finds: the
  finding of a helper from its own arguments, the findings of a section from the fields of
  that section, and the findings of a run as the findings of the sections one after the
  other.  They are what \<open>every check runs, whatever was found before\<close> means; the
  properties of the validator compare them with the code above.\<close>

definition required_finding :: "string \<Rightarrow> bool \<Rightarrow> ValidationError list" where
  "required_finding fld is_present =
     (if \<not> is_present
      then [\<lparr>severity = Error, code = Required, field = fld,
             message = ''Required field is missing'', expected = None, actual = None\<rparr>]
      else [])"

definition range_finding :: "DoubleText \<Rightarrow> string \<Rightarrow> real \<Rightarrow> real \<Rightarrow> real \<Rightarrow> ValidationSeverity \<Rightarrow>
    ValidationError list" where
  "range_finding T fld v lo hi sev =
     (if v < lo \<or> v > hi
      then [\<lparr>severity = sev, code = OutOfRange, field = fld,
             message = ''Value out of range'',
             expected = Some (stream_double T lo @ '' to '' @ stream_double T hi),
             actual = Some (to_string_double T v)\<rparr>]
      else [])"

definition percentage_finding :: "DoubleText \<Rightarrow> string \<Rightarrow> real \<Rightarrow> ValidationError list" where
  "percentage_finding T fld v = range_finding T fld v 0 100 Error"

definition positive_finding :: "DoubleText \<Rightarrow> string \<Rightarrow> real \<Rightarrow> ValidationError list" where
  "positive_finding T fld v =
     (if v \<le> 0
      then [\<lparr>severity = Error, code = OutOfRange, field = fld,
             message = ''Value must be positive'', expected = Some ''> 0'',
             actual = Some (to_string_double T v)\<rparr>]
      else [])"

definition non_negative_finding :: "DoubleText \<Rightarrow> string \<Rightarrow> real \<Rightarrow> ValidationError list" where
  "non_negative_finding T fld v =
     (if v < 0
      then [\<lparr>severity = Error, code = OutOfRange, field = fld,
             message = ''Value must be non-negative'', expected = Some ''>= 0'',
             actual = Some (to_string_double T v)\<rparr>]
      else [])"

definition iso8601_finding :: "string \<Rightarrow> string \<Rightarrow> ValidationError list" where
  "iso8601_finding fld v =
     (if \<not> is_valid_iso8601 v
      then [\<lparr>severity = Warning, code = InvalidFormat, field = fld,
             message = ''Invalid ISO8601 timestamp format'',
             expected = Some ''YYYY-MM-DDTHH:MM:SS(.sss)?(Z|[+-]HH:MM)?'',
             actual = Some v\<rparr>]
      else [])"

definition schema_findings :: "ORSF \<Rightarrow> ValidationError list" where
  "schema_findings orsf =
     (if schema orsf \<noteq> ''orsf://v1''
      then [\<lparr>severity = Error, code = SchemaInvalid, field = ''schema'',
             message = ''Invalid schema version'', expected = Some ''orsf://v1'',
             actual = Some (schema orsf)\<rparr>]
      else [])"

definition metadata_findings :: "Metadata \<Rightarrow> ValidationError list" where
  "metadata_findings md =
     required_finding ''metadata.id'' (metadata_id md \<noteq> [])
     @ required_finding ''metadata.name'' (name md \<noteq> [])
     @ required_finding ''metadata.created_at'' (created_at md \<noteq> [])
     @ (if created_at md \<noteq> []
        then iso8601_finding ''metadata.created_at'' (created_at md)
        else [])
     @ (case updated_at md of
          None \<Rightarrow> []
        | Some u \<Rightarrow> if u \<noteq> [] then iso8601_finding ''metadata.updated_at'' u else [])
     @ (case updated_at md of
          None \<Rightarrow> []
        | Some u \<Rightarrow>
            if u < created_at md
            then [\<lparr>severity = Warning, code = Incompatible,
                   field = ''metadata.updated_at'',
                   message = ''Updated timestamp is before created timestamp'',
                   expected = None, actual = None\<rparr>]
            else [])"

definition car_findings :: "Car \<Rightarrow> ValidationError list" where
  "car_findings c =
     required_finding ''car.make'' (car_make c \<noteq> [])
     @ required_finding ''car.model'' (model c \<noteq> [])
     @ (case car_class c of
          None \<Rightarrow> []
        | Some cls \<Rightarrow>
            if \<not> (cls \<in> set valid_classes)
            then [\<lparr>severity = Warning, code = InvalidFormat, field = ''car.class'',
                   message = ''Unknown car class: '' @ cls,
                   expected = None, actual = None\<rparr>]
            else [])"

definition context_findings :: "DoubleText \<Rightarrow> Context option \<Rightarrow> ValidationError list" where
  "context_findings T co =
     (case co of
        None \<Rightarrow> []
      | Some ctx \<Rightarrow>
          (case ambient_temp_c ctx of None \<Rightarrow> []
           | Some x \<Rightarrow> range_finding T ''context.ambient_temp_c'' x (- 50) 70 Warning)
          @ (case track_temp_c ctx of None \<Rightarrow> []
             | Some x \<Rightarrow> range_finding T ''context.track_temp_c'' x (- 20) 80 Warning)
          @ (case wetness ctx of None \<Rightarrow> []
             | Some x \<Rightarrow> range_finding T ''context.wetness'' x 0 1 Error)
          @ (case rubber ctx of
               None \<Rightarrow> []
             | Some lvl \<Rightarrow>
                 if \<not> (lvl \<in> set valid_levels)
                 then [\<lparr>severity = Warning, code = InvalidFormat,
                        field = ''context.rubber'',
                        message = ''Unknown rubber level: '' @ lvl,
                        expected = None, actual = None\<rparr>]
                 else []))"

definition aero_findings :: "DoubleText \<Rightarrow> Aerodynamics option \<Rightarrow> ValidationError list" where
  "aero_findings T ao =
     (case ao of
        None \<Rightarrow> []
      | Some a \<Rightarrow>
          (case front_ride_height_mm a of None \<Rightarrow> []
           | Some x \<Rightarrow> positive_finding T ''setup.aero.front_ride_height_mm'' x)
          @ (case rear_ride_height_mm a of None \<Rightarrow> []
             | Some x \<Rightarrow> positive_finding T ''setup.aero.rear_ride_height_mm'' x)
          @ (case brake_duct_front_pct a of None \<Rightarrow> []
             | Some x \<Rightarrow> percentage_finding T ''setup.aero.brake_duct_front_pct'' x)
          @ (case brake_duct_rear_pct a of None \<Rightarrow> []
             | Some x \<Rightarrow> percentage_finding T ''setup.aero.brake_duct_rear_pct'' x)
          @ (case radiator_opening_pct a of None \<Rightarrow> []
             | Some x \<Rightarrow> percentage_finding T ''setup.aero.radiator_opening_pct'' x)
          @ (case front_downforce_n a of None \<Rightarrow> []
             | Some x \<Rightarrow> non_negative_finding T ''setup.aero.front_downforce_n'' x)
          @ (case rear_downforce_n a of None \<Rightarrow> []
             | Some x \<Rightarrow> non_negative_finding T ''setup.aero.rear_downforce_n'' x))"

definition corner_findings :: "DoubleText \<Rightarrow> CornerSuspension option \<Rightarrow> string \<Rightarrow>
    ValidationError list" where
  "corner_findings T co corner_name =
     (case co of
        None \<Rightarrow> []
      | Some c \<Rightarrow>
          (case camber_deg c of None \<Rightarrow> []
           | Some x \<Rightarrow> range_finding T (corner_name @ ''.camber_deg'') x (- 10) 5 Warning)
          @ (case spring_rate_n_mm c of None \<Rightarrow> []
             | Some x \<Rightarrow> positive_finding T (corner_name @ ''.spring_rate_n_mm'') x)
          @ (case ride_height_mm c of None \<Rightarrow> []
             | Some x \<Rightarrow> positive_finding T (corner_name @ ''.ride_height_mm'') x)
          @ (case bumpstop_gap_mm c of None \<Rightarrow> []
             | Some x \<Rightarrow> non_negative_finding T (corner_name @ ''.bumpstop_gap_mm'') x)
          @ (case bumpstop_rate_n_mm c of None \<Rightarrow> []
             | Some x \<Rightarrow> positive_finding T (corner_name @ ''.bumpstop_rate_n_mm'') x)
          @ (case damper_bump_slow_n_s_m c of None \<Rightarrow> []
             | Some x \<Rightarrow> non_negative_finding T (corner_name @ ''.damper_bump_slow_n_s_m'') x)
          @ (case damper_bump_fast_n_s_m c of None \<Rightarrow> []
             | Some x \<Rightarrow> non_negative_finding T (corner_name @ ''.damper_bump_fast_n_s_m'') x)
          @ (case damper_rebound_slow_n_s_m c of None \<Rightarrow> []
             | Some x \<Rightarrow> non_negative_finding T (corner_name @ ''.damper_rebound_slow_n_s_m'') x)
          @ (case damper_rebound_fast_n_s_m c of None \<Rightarrow> []
             | Some x \<Rightarrow> non_negative_finding T (corner_name @ ''.damper_rebound_fast_n_s_m'') x))"

definition suspension_findings :: "DoubleText \<Rightarrow> Suspension option \<Rightarrow> ValidationError list" where
  "suspension_findings T so =
     (case so of
        None \<Rightarrow> []
      | Some s \<Rightarrow>
          corner_findings T (front_left s) ''setup.suspension.front_left''
          @ corner_findings T (front_right s) ''setup.suspension.front_right''
          @ corner_findings T (rear_left s) ''setup.suspension.rear_left''
          @ corner_findings T (rear_right s) ''setup.suspension.rear_right''
          @ (case heave_spring_n_mm s of None \<Rightarrow> []
             | Some x \<Rightarrow> positive_finding T ''setup.suspension.heave_spring_n_mm'' x))"

definition tires_findings :: "DoubleText \<Rightarrow> Tires option \<Rightarrow> ValidationError list" where
  "tires_findings T tio =
     (case tio of
        None \<Rightarrow> []
      | Some t \<Rightarrow>
          (case pressure_fl_kpa t of None \<Rightarrow> []
           | Some x \<Rightarrow> range_finding T ''setup.tires.pressure_fl_kpa'' x 50 400 Warning)
          @ (case pressure_fr_kpa t of None \<Rightarrow> []
             | Some x \<Rightarrow> range_finding T ''setup.tires.pressure_fr_kpa'' x 50 400 Warning)
          @ (case pressure_rl_kpa t of None \<Rightarrow> []
             | Some x \<Rightarrow> range_finding T ''setup.tires.pressure_rl_kpa'' x 50 400 Warning)
          @ (case pressure_rr_kpa t of None \<Rightarrow> []
             | Some x \<Rightarrow> range_finding T ''setup.tires.pressure_rr_kpa'' x 50 400 Warning))"

definition drivetrain_findings :: "DoubleText \<Rightarrow> Drivetrain option \<Rightarrow> ValidationError list" where
  "drivetrain_findings T dto =
     (case dto of
        None \<Rightarrow> []
      | Some d \<Rightarrow>
          (case diff_preload_nm d of None \<Rightarrow> []
           | Some x \<Rightarrow> non_negative_finding T ''setup.drivetrain.diff_preload_nm'' x)
          @ (case diff_power_ramp_pct d of None \<Rightarrow> []
             | Some x \<Rightarrow> percentage_finding T ''setup.drivetrain.diff_power_ramp_pct'' x)
          @ (case diff_coast_ramp_pct d of None \<Rightarrow> []
             | Some x \<Rightarrow> percentage_finding T ''setup.drivetrain.diff_coast_ramp_pct'' x)
          @ (case final_drive_ratio d of None \<Rightarrow> []
             | Some x \<Rightarrow> positive_finding T ''setup.drivetrain.final_drive_ratio'' x)
          @ (case lsd_clutch_plates d of
               None \<Rightarrow> []
             | Some n \<Rightarrow>
                 if n \<le> 0
                 then [\<lparr>severity = Error, code = OutOfRange,
                        field = ''setup.drivetrain.lsd_clutch_plates'',
                        message = ''LSD clutch plates must be positive'',
                        expected = None, actual = None\<rparr>]
                 else []))"

definition gear_ratio_findings :: "real list \<Rightarrow> nat \<Rightarrow> ValidationError list" where
  "gear_ratio_findings ratios i =
     map (\<lambda>(j, r). \<lparr>severity = Error, code = OutOfRange,
            field = ''setup.gearing.gear_ratios['' @ to_string_nat j @ '']'',
            message = ''Gear ratio must be positive'',
            expected = None, actual = None\<rparr>)
       (filter (\<lambda>(j, r). r \<le> 0) (List.enumerate i ratios))"

definition gearing_findings :: "DoubleText \<Rightarrow> Gearing option \<Rightarrow> ValidationError list" where
  "gearing_findings T go =
     (case go of
        None \<Rightarrow> []
      | Some g \<Rightarrow>
          (case gear_ratios g of
             None \<Rightarrow> []
           | Some ratios \<Rightarrow>
               (if ratios = []
                then [\<lparr>severity = Warning, code = InvalidFormat,
                       field = ''setup.gearing.gear_ratios'',
                       message = ''Gear ratios array is empty'',
                       expected = None, actual = None\<rparr>]
                else [])
               @ gear_ratio_findings ratios 0)
          @ (case reverse_ratio g of None \<Rightarrow> []
             | Some x \<Rightarrow> positive_finding T ''setup.gearing.reverse_ratio'' x))"

definition brakes_findings :: "DoubleText \<Rightarrow> Brakes option \<Rightarrow> ValidationError list" where
  "brakes_findings T bo =
     (case bo of
        None \<Rightarrow> []
      | Some b \<Rightarrow>
          (case brake_bias_pct b of None \<Rightarrow> []
           | Some x \<Rightarrow> percentage_finding T ''setup.brakes.brake_bias_pct'' x)
          @ (case max_force_n b of None \<Rightarrow> []
             | Some x \<Rightarrow> positive_finding T ''setup.brakes.max_force_n'' x))"

definition electronics_findings :: "DoubleText \<Rightarrow> Electronics option \<Rightarrow> ValidationError list" where
  "electronics_findings T eo =
     (case eo of
        None \<Rightarrow> []
      | Some e \<Rightarrow>
          (case pit_limiter_kph e of None \<Rightarrow> []
           | Some x \<Rightarrow> positive_finding T ''setup.electronics.pit_limiter_kph'' x))"

definition fuel_findings :: "DoubleText \<Rightarrow> Fuel option \<Rightarrow> ValidationError list" where
  "fuel_findings T fo =
     (case fo of
        None \<Rightarrow> []
      | Some f \<Rightarrow>
          (case start_fuel_l f of None \<Rightarrow> []
           | Some x \<Rightarrow> non_negative_finding T ''setup.fuel.start_fuel_l'' x)
          @ (case per_lap_consumption_l f of None \<Rightarrow> []
             | Some x \<Rightarrow> positive_finding T ''setup.fuel.per_lap_consumption_l'' x)
          @ (case stint_target_laps f of
               None \<Rightarrow> []
             | Some n \<Rightarrow>
                 if n \<le> 0
                 then [\<lparr>severity = Error, code = OutOfRange,
                        field = ''setup.fuel.stint_target_laps'',
                        message = ''Stint target laps must be positive'',
                        expected = None, actual = None\<rparr>]
                 else []))"

definition setup_findings :: "DoubleText \<Rightarrow> Setup \<Rightarrow> ValidationError list" where
  "setup_findings T s =
     aero_findings T (aero s)
     @ suspension_findings T (suspension s)
     @ tires_findings T (tires s)
     @ drivetrain_findings T (drivetrain s)
     @ gearing_findings T (gearing s)
     @ brakes_findings T (brakes s)
     @ electronics_findings T (electronics s)
     @ fuel_findings T (fuel s)"

definition cross_field_findings :: "DoubleText \<Rightarrow> ORSF \<Rightarrow> ValidationError list" where
  "cross_field_findings T orsf =
     (case orsf_context orsf of
        None \<Rightarrow> []
      | Some ctx \<Rightarrow>
          (case ambient_temp_c ctx of
             None \<Rightarrow> []
           | Some ambient \<Rightarrow>
               (case track_temp_c ctx of
                  None \<Rightarrow> []
                | Some trk \<Rightarrow>
                    (if trk < double_sub T ambient 5
                     then [\<lparr>severity = Warning, code = Incompatible,
                            field = ''context.track_temp_c'',
                            message = ''Track temperature is significantly lower than ambient temperature'',
                            expected = None, actual = None\<rparr>]
                     else [])
                    @ (if trk > double_add T ambient 40
                       then [\<lparr>severity = Warning, code = Incompatible,
                              field = ''context.track_temp_c'',
                              message = ''Track temperature is unusually high compared to ambient'',
                              expected = None, actual = None\<rparr>]
                       else []))))"

definition validate_findings :: "DoubleText \<Rightarrow> ORSF \<Rightarrow> ValidationError list" where
  "validate_findings T orsf =
     schema_findings orsf
     @ metadata_findings (metadata orsf)
     @ car_findings (car orsf)
     @ context_findings T (orsf_context orsf)
     @ setup_findings T (orsf_setup orsf)
     @ cross_field_findings T orsf"

section \<open>Auxiliary notions for the proofs\<close>

text \<open>The three branches of \<open>set_value\<close> and the matching blocks of \<open>get_value\<close>, seen
  as functions on the subsystem record: the leaf a block returns for a field name, and the
  record a branch leaves behind for a field name.  The lists name the fields the branches of
  \<open>set_value\<close> assign; \<open>set_value_paths\<close> are the paths that reach them.\<close>

definition aero_leaf :: "Aerodynamics \<Rightarrow> string \<Rightarrow> real option" where
  "aero_leaf ae fld =
     (if fld = ''front_wing'' then front_wing ae
      else if fld = ''rear_wing'' then rear_wing ae
      else if fld = ''front_downforce_n'' then front_downforce_n ae
      else if fld = ''rear_downforce_n'' then rear_downforce_n ae
      else if fld = ''front_ride_height_mm'' then front_ride_height_mm ae
      else if fld = ''rear_ride_height_mm'' then rear_ride_height_mm ae
      else if fld = ''rake_mm'' then rake_mm ae
      else if fld = ''brake_duct_front_pct'' then brake_duct_front_pct ae
      else if fld = ''brake_duct_rear_pct'' then brake_duct_rear_pct ae
      else if fld = ''radiator_opening_pct'' then radiator_opening_pct ae
      else None)"

definition aero_assign :: "Aerodynamics \<Rightarrow> string \<Rightarrow> real \<Rightarrow> Aerodynamics" where
  "aero_assign ae fld v =
     (if fld = ''front_wing'' then ae\<lparr>front_wing := Some v\<rparr>
      else if fld = ''rear_wing'' then ae\<lparr>rear_wing := Some v\<rparr>
      else if fld = ''front_downforce_n'' then ae\<lparr>front_downforce_n := Some v\<rparr>
      else if fld = ''rear_downforce_n'' then ae\<lparr>rear_downforce_n := Some v\<rparr>
      else if fld = ''front_ride_height_mm'' then ae\<lparr>front_ride_height_mm := Some v\<rparr>
      else if fld = ''rear_ride_height_mm'' then ae\<lparr>rear_ride_height_mm := Some v\<rparr>
      else if fld = ''rake_mm'' then ae\<lparr>rake_mm := Some v\<rparr>
      else if fld = ''brake_duct_front_pct'' then ae\<lparr>brake_duct_front_pct := Some v\<rparr>
      else if fld = ''brake_duct_rear_pct'' then ae\<lparr>brake_duct_rear_pct := Some v\<rparr>
      else if fld = ''radiator_opening_pct'' then ae\<lparr>radiator_opening_pct := Some v\<rparr>
      else ae)"

definition tires_leaf :: "Tires \<Rightarrow> string \<Rightarrow> real option" where
  "tires_leaf ti fld =
     (if fld = ''pressure_fl_kpa'' then pressure_fl_kpa ti
      else if fld = ''pressure_fr_kpa'' then pressure_fr_kpa ti
      else if fld = ''pressure_rl_kpa'' then pressure_rl_kpa ti
      else if fld = ''pressure_rr_kpa'' then pressure_rr_kpa ti
      else if fld = ''stagger_mm'' then stagger_mm ti
      else None)"

definition tires_assign :: "Tires \<Rightarrow> string \<Rightarrow> real \<Rightarrow> Tires" where
  "tires_assign ti fld v =
     (if fld = ''pressure_fl_kpa'' then ti\<lparr>pressure_fl_kpa := Some v\<rparr>
      else if fld = ''pressure_fr_kpa'' then ti\<lparr>pressure_fr_kpa := Some v\<rparr>
      else if fld = ''pressure_rl_kpa'' then ti\<lparr>pressure_rl_kpa := Some v\<rparr>
      else if fld = ''pressure_rr_kpa'' then ti\<lparr>pressure_rr_kpa := Some v\<rparr>
      else if fld = ''stagger_mm'' then ti\<lparr>stagger_mm := Some v\<rparr>
      else ti)"

definition brakes_leaf :: "Brakes \<Rightarrow> string \<Rightarrow> real option" where
  "brakes_leaf br fld =
     (if fld = ''brake_bias_pct'' then brake_bias_pct br
      else if fld = ''max_force_n'' then max_force_n br
      else None)"

definition brakes_assign :: "Brakes \<Rightarrow> string \<Rightarrow> real \<Rightarrow> Brakes" where
  "brakes_assign br fld v =
     (if fld = ''brake_bias_pct'' then br\<lparr>brake_bias_pct := Some v\<rparr>
      else if fld = ''max_force_n'' then br\<lparr>max_force_n := Some v\<rparr>
      else br)"

definition aero_fields :: "string list" where
  "aero_fields = [''front_wing'', ''rear_wing'', ''front_downforce_n'', ''rear_downforce_n'',
     ''front_ride_height_mm'', ''rear_ride_height_mm'', ''rake_mm'', ''brake_duct_front_pct'',
     ''brake_duct_rear_pct'', ''radiator_opening_pct'']"

definition tires_fields :: "string list" where
  "tires_fields = [''pressure_fl_kpa'', ''pressure_fr_kpa'', ''pressure_rl_kpa'',
     ''pressure_rr_kpa'', ''stagger_mm'']"

definition brakes_fields :: "string list" where
  "brakes_fields = [''brake_bias_pct'', ''max_force_n'']"



text \<open>A function on the vector of findings that pushes the findings \<open>found\<close> at its
  back, whatever the vector holds.\<close>

definition emits :: "(ValidationError list \<Rightarrow> ValidationError list) \<Rightarrow> ValidationError list \<Rightarrow> bool" where
  "emits F found \<longleftrightarrow> (\<forall>errors. F errors = errors @ found)"

section \<open>Examples from the tests and the example programs\<close>

text \<open>The constructor \<open>LUTEntry(in, out)\<close> and the table of the lookup-table tests.\<close>

definition lut_entry :: "real \<Rightarrow> real \<Rightarrow> LUTEntry" where
  "lut_entry i out = \<lparr>lut_input = i, lut_output = out\<rparr>"

definition example_table :: "LUTEntry list" where
  "example_table = [lut_entry 0 0, lut_entry 50 25, lut_entry 100 75]"

text \<open>\<open>create_test_setup\<close> of the mapping tests, and four mappings over its fields:
  two without transforms, one with the transform \<open>Transform::negate\<close> in both directions, and
  one for a field the test document does not hold.\<close>

definition create_test_setup :: ORSF where
  "create_test_setup =
     ORSF_default\<lparr>
       metadata := (metadata ORSF_default)\<lparr>metadata_id := ''test-123'', name := ''Test Setup'',
                     created_at := ''2024-01-01T00:00:00Z''\<rparr>,
       car := (car ORSF_default)\<lparr>car_make := ''Porsche'', model := ''911 GT3 R''\<rparr>,
       orsf_setup := Setup_default\<lparr>
         aero := Some (Aerodynamics_default\<lparr>front_wing := Some 2, rear_wing := Some 4\<rparr>),
         tires := Some (Tires_default\<lparr>pressure_fl_kpa := Some 170, pressure_fr_kpa := Some 170,
                          pressure_rl_kpa := Some 165, pressure_rr_kpa := Some 165\<rparr>),
         brakes := Some (Brakes_default\<lparr>brake_bias_pct := Some 58\<rparr>)\<rparr>\<rparr>"






text \<open>The document of the validation example \<open>Invalid Gear Ratios\<close>.\<close>

definition invalid_gear_ratios_example :: ORSF where
  "invalid_gear_ratios_example =
     ORSF_default\<lparr>
       metadata := (metadata ORSF_default)\<lparr>metadata_id := ''gearing-test'',
                     name := ''Gearing Test'', created_at := ''2024-01-15T10:00:00Z''\<rparr>,
       car := (car ORSF_default)\<lparr>car_make := ''Test'', model := ''Car''\<rparr>,
       orsf_setup := Setup_default\<lparr>
         gearing := Some \<lparr>gear_ratios = Some [3.5, - 2.8, 2.3, 0.0, 1.6],
                           reverse_ratio = None\<rparr>\<rparr>\<rparr>"

text \<open>An instance of the platform parameters for running the validator on examples; the
  examples above produce no finding that prints a double and do not reach the cross-field
  arithmetic.\<close>

definition plain_text :: DoubleText where
  "plain_text = \<lparr>to_string_double = (\<lambda>x. []), stream_double = (\<lambda>x. []),
     double_add = (\<lambda>x y. x + y), double_sub = (\<lambda>x y. x - y)\<rparr>"

section \<open>Properties of the mapping engine\<close>

subsection \<open>The blocks of get_value and the branches of set_value\<close>

lemmas get_value_defs = get_value_def Let_def get_value_aero_def
      get_value_suspension_def get_value_tires_def get_value_drivetrain_def get_value_brakes_def
      get_value_electronics_def get_value_fuel_def

lemma get_value_aero_view:
  assumes "split_path p = ''setup'' # ''aero'' # fld # rest"
  shows "get_value d p = (case aero (orsf_setup d) of None \<Rightarrow> None | Some ae \<Rightarrow> aero_leaf ae fld)"
  by (simp add: assms get_value_defs aero_leaf_def split: option.splits)

lemma get_value_tires_view:
  assumes "split_path p = ''setup'' # ''tires'' # fld # rest"
  shows "get_value d p = (case tires (orsf_setup d) of None \<Rightarrow> None | Some ti \<Rightarrow> tires_leaf ti fld)"
  by (simp add: assms get_value_defs tires_leaf_def split: option.splits)

lemma get_value_brakes_view:
  assumes "split_path p = ''setup'' # ''brakes'' # fld # rest"
  shows "get_value d p = (case brakes (orsf_setup d) of None \<Rightarrow> None | Some br \<Rightarrow> brakes_leaf br fld)"
  by (simp add: assms get_value_defs brakes_leaf_def split: option.splits)

lemma set_value_aero_view:
  assumes "split_path q = ''setup'' # ''aero'' # fld # rest"
  shows "set_value d q v = d\<lparr>orsf_setup := (orsf_setup d)\<lparr>aero :=
     Some (aero_assign (case aero (orsf_setup d) of None \<Rightarrow> Aerodynamics_default | Some a \<Rightarrow> a) fld v)\<rparr>\<rparr>"
  by (simp add: assms set_value_def Let_def aero_assign_def)

lemma set_value_tires_view:
  assumes "split_path q = ''setup'' # ''tires'' # fld # rest"
  shows "set_value d q v = d\<lparr>orsf_setup := (orsf_setup d)\<lparr>tires :=
     Some (tires_assign (case tires (orsf_setup d) of None \<Rightarrow> Tires_default | Some a \<Rightarrow> a) fld v)\<rparr>\<rparr>"
  by (simp add: assms set_value_def Let_def tires_assign_def)

lemma set_value_brakes_view:
  assumes "split_path q = ''setup'' # ''brakes'' # fld # rest"
  shows "set_value d q v = d\<lparr>orsf_setup := (orsf_setup d)\<lparr>brakes :=
     Some (brakes_assign (case brakes (orsf_setup d) of None \<Rightarrow> Brakes_default | Some a \<Rightarrow> a) fld v)\<rparr>\<rparr>"
  by (simp add: assms set_value_def Let_def brakes_assign_def)

subsection \<open>What the flatten helpers write\<close>

















lemma aero_leaf_assign:
  "aero_leaf (aero_assign ae g v) f =
     (if f = g \<and> f \<in> set aero_fields then Some v else aero_leaf ae f)"
proof (cases "g \<in> set aero_fields")
  case True
  then show ?thesis
    unfolding aero_fields_def
    by (simp only: list.set insert_iff empty_iff)
       (elim disjE; simp add: aero_leaf_def aero_assign_def)
next
  case False
  then show ?thesis
    by (auto simp add: aero_fields_def aero_assign_def)
qed

lemma tires_leaf_assign:
  "tires_leaf (tires_assign ti g v) f =
     (if f = g \<and> f \<in> set tires_fields then Some v else tires_leaf ti f)"
proof (cases "g \<in> set tires_fields")
  case True
  then show ?thesis
    unfolding tires_fields_def
    by (simp only: list.set insert_iff empty_iff)
       (elim disjE; simp add: tires_leaf_def tires_assign_def)
next
  case False
  then show ?thesis
    by (auto simp add: tires_fields_def tires_assign_def)
qed

lemma brakes_leaf_assign:
  "brakes_leaf (brakes_assign br g v) f =
     (if f = g \<and> f \<in> set brakes_fields then Some v else brakes_leaf br f)"
proof (cases "g \<in> set brakes_fields")
  case True
  then show ?thesis
    unfolding brakes_fields_def
    by (simp only: list.set insert_iff empty_iff)
       (elim disjE; simp add: brakes_leaf_def brakes_assign_def)
next
  case False
  then show ?thesis
    by (auto simp add: brakes_fields_def brakes_assign_def)
qed


lemma assign_unknown:
  "f \<notin> set aero_fields \<Longrightarrow> aero_assign ae f v = ae"
  "g \<notin> set tires_fields \<Longrightarrow> tires_assign ti g v = ti"
  "h \<notin> set brakes_fields \<Longrightarrow> brakes_assign br h v = br"
  by (simp_all add: aero_assign_def tires_assign_def brakes_assign_def aero_fields_def
      tires_fields_def brakes_fields_def)

subsection \<open>Flattening, reading and writing the paths that set_value assigns\<close>










lemma set_value_noop:
  assumes "split_path path = [] \<or> split_path path ! 0 \<noteq> ''setup''
     \<or> length (split_path path) < 3
     \<or> split_path path ! 1 \<notin> {''aero'', ''tires'', ''brakes''}"
  shows "set_value d path v = d"
proof (cases "split_path path = [] \<or> split_path path ! 0 \<noteq> ''setup''
    \<or> length (split_path path) < 3")
  case True
  then show ?thesis by (simp add: set_value_def)
next
  case False
  with assms have "split_path path ! 1 \<noteq> ''aero''" "split_path path ! 1 \<noteq> ''tires''"
    "split_path path ! 1 \<noteq> ''brakes''" by blast+
  with False show ?thesis by (simp add: set_value_def Let_def)
qed

lemma get_value_set_value_aero:
  assumes "split_path path = ''setup'' # ''aero'' # fld # rest" and "fld \<in> set aero_fields"
  shows "get_value (set_value d path v) path = Some v"
    and "aero (orsf_setup (set_value d path v)) \<noteq> None"
  using assms(2)
  by (simp_all add: set_value_aero_view [OF assms(1)] get_value_aero_view [OF assms(1)]
      aero_leaf_assign)

lemma get_value_set_value_tires:
  assumes "split_path path = ''setup'' # ''tires'' # fld # rest" and "fld \<in> set tires_fields"
  shows "get_value (set_value d path v) path = Some v"
    and "tires (orsf_setup (set_value d path v)) \<noteq> None"
  using assms(2)
  by (simp_all add: set_value_tires_view [OF assms(1)] get_value_tires_view [OF assms(1)]
      tires_leaf_assign)

lemma get_value_set_value_brakes:
  assumes "split_path path = ''setup'' # ''brakes'' # fld # rest" and "fld \<in> set brakes_fields"
  shows "get_value (set_value d path v) path = Some v"
    and "brakes (orsf_setup (set_value d path v)) \<noteq> None"
  using assms(2)
  by (simp_all add: set_value_brakes_view [OF assms(1)] get_value_brakes_view [OF assms(1)]
      brakes_leaf_assign)

text \<open>
  Claim C2, as amended.  For every path whose segments are \<open>setup\<close>, one of the sections
  \<open>aero\<close>, \<open>tires\<close>, \<open>brakes\<close> and a leaf field that section's branch of \<open>set_value\<close>
  assigns (further segments are ignored), \<open>set_value\<close> leaves the section's container
  present and a following \<open>get_value\<close> on the same path returns the value set.  For a path
  that is empty, has another root than \<open>setup\<close>, has fewer than three segments or names any
  other section (the sections \<open>suspension\<close>, \<open>drivetrain\<close>, \<open>gearing\<close>, \<open>electronics\<close> and
  \<open>fuel\<close> of the path grammar among them), \<open>set_value\<close> returns the document unchanged.
\<close>

theorem set_value_then_get_value:
  "(split_path path = ''setup'' # sec # fld # rest
      \<and> (sec = ''aero'' \<and> fld \<in> set aero_fields
         \<or> sec = ''tires'' \<and> fld \<in> set tires_fields
         \<or> sec = ''brakes'' \<and> fld \<in> set brakes_fields)
    \<longrightarrow> get_value (set_value d path v) path = Some v
        \<and> (sec = ''aero'' \<longrightarrow> aero (orsf_setup (set_value d path v)) \<noteq> None)
        \<and> (sec = ''tires'' \<longrightarrow> tires (orsf_setup (set_value d path v)) \<noteq> None)
        \<and> (sec = ''brakes'' \<longrightarrow> brakes (orsf_setup (set_value d path v)) \<noteq> None))
   \<and> (split_path path = [] \<or> split_path path ! 0 \<noteq> ''setup''
        \<or> length (split_path path) < 3
        \<or> split_path path ! 1 \<notin> {''aero'', ''tires'', ''brakes''}
    \<longrightarrow> set_value d path v = d)"
proof (intro conjI impI)
  assume a: "split_path path = ''setup'' # sec # fld # rest
      \<and> (sec = ''aero'' \<and> fld \<in> set aero_fields
         \<or> sec = ''tires'' \<and> fld \<in> set tires_fields
         \<or> sec = ''brakes'' \<and> fld \<in> set brakes_fields)"
  then show "get_value (set_value d path v) path = Some v"
    using get_value_set_value_aero(1) get_value_set_value_tires(1)
      get_value_set_value_brakes(1) by blast
  show "aero (orsf_setup (set_value d path v)) \<noteq> None" if "sec = ''aero''"
    using a that get_value_set_value_aero(2) [of path fld rest] by auto
  show "tires (orsf_setup (set_value d path v)) \<noteq> None" if "sec = ''tires''"
    using a that get_value_set_value_tires(2) [of path fld rest] by auto
  show "brakes (orsf_setup (set_value d path v)) \<noteq> None" if "sec = ''brakes''"
    using a that get_value_set_value_brakes(2) [of path fld rest] by auto
next
  assume "split_path path = [] \<or> split_path path ! 0 \<noteq> ''setup''
        \<or> length (split_path path) < 3
        \<or> split_path path ! 1 \<notin> {''aero'', ''tires'', ''brakes''}"
  then show "set_value d path v = d"
    by (rule set_value_noop)
qed

theorem set_value_then_get_value_witness:
  "split_path ''setup.tires.pressure_fl_kpa'' = ''setup'' # ''tires'' # ''pressure_fl_kpa'' # []
   \<and> ''pressure_fl_kpa'' \<in> set tires_fields
   \<and> get_value (set_value ORSF_default ''setup.tires.pressure_fl_kpa'' 180)
        ''setup.tires.pressure_fl_kpa'' = Some 180
   \<and> tires (orsf_setup (set_value ORSF_default ''setup.tires.pressure_fl_kpa'' 180)) \<noteq> None
   \<and> split_path ''car.make'' ! 0 \<noteq> ''setup''
   \<and> set_value ORSF_default ''car.make'' 1 = ORSF_default
   \<and> length (split_path ''setup.aero'') < 3
   \<and> set_value ORSF_default ''setup.aero'' 1 = ORSF_default
   \<and> split_path ''setup.wheels.size'' ! 1 \<notin> {''aero'', ''tires'', ''brakes''}
   \<and> set_value ORSF_default ''setup.wheels.size'' 1 = ORSF_default"
proof -
  have s1: "split_path ''setup.tires.pressure_fl_kpa''
              = ''setup'' # ''tires'' # ''pressure_fl_kpa'' # []"
    by (simp add: split_path_def split_def)
  have f1: "''pressure_fl_kpa'' \<in> set tires_fields"
    by (simp add: tires_fields_def)
  have s2: "split_path ''car.make'' ! 0 \<noteq> ''setup''"
    by (simp add: split_path_def split_def)
  have s3: "length (split_path ''setup.aero'') < 3"
    by (simp add: split_path_def split_def)
  have s4: "split_path ''setup.wheels.size'' ! 1 \<notin> {''aero'', ''tires'', ''brakes''}"
    by (simp add: split_path_def split_def)
  show ?thesis
    using s1 f1 s2 s3 s4
      set_value_then_get_value [of "''setup.tires.pressure_fl_kpa''" "''tires''"
        "''pressure_fl_kpa''" "[]" ORSF_default 180]
      set_value_then_get_value [of "''car.make''" _ _ _ ORSF_default 1]
      set_value_then_get_value [of "''setup.aero''" _ _ _ ORSF_default 1]
      set_value_then_get_value [of "''setup.wheels.size''" _ _ _ ORSF_default 1]
    by simp
qed

text \<open>
  Claim C2 as stated fails: the path \<open>setup.suspension.front_left.camber_deg\<close> is valid
  under the grammar (root, subsystem, corner, leaf), yet \<open>set_value\<close> ignores it and a
  following \<open>get_value\<close> returns no value.
\<close>

theorem set_value_ignores_suspension_path:
  "split_path ''setup.suspension.front_left.camber_deg''
     = [''setup'', ''suspension'', ''front_left'', ''camber_deg'']
   \<and> set_value ORSF_default ''setup.suspension.front_left.camber_deg'' (- 2.5) = ORSF_default
   \<and> get_value (set_value ORSF_default ''setup.suspension.front_left.camber_deg'' (- 2.5))
        ''setup.suspension.front_left.camber_deg'' = None"
  by (simp add: split_path_def split_def set_value_def get_value_defs ORSF_default_def
      Setup_default_def)


subsection \<open>Inflating a flat map\<close>












text \<open>
  Claim C10.  When the path's root is \<open>setup\<close>, its section is \<open>aero\<close>, \<open>tires\<close> or
  \<open>brakes\<close>, its leaf name is none of the fields that section's branch assigns and the
  section's container is absent, \<open>set_value\<close> changes the document although it assigns no
  leaf: the result is the document with that container set to its default-constructed
  (empty) value, and nothing else changed.
\<close>

theorem set_value_unknown_leaf_creates_container:
  assumes "split_path path = ''setup'' # sec # fld # rest"
  shows "(sec = ''aero'' \<and> fld \<notin> set aero_fields \<and> aero (orsf_setup d) = None \<longrightarrow>
            set_value d path v
              = d\<lparr>orsf_setup := (orsf_setup d)\<lparr>aero := Some Aerodynamics_default\<rparr>\<rparr>
            \<and> set_value d path v \<noteq> d)
       \<and> (sec = ''tires'' \<and> fld \<notin> set tires_fields \<and> tires (orsf_setup d) = None \<longrightarrow>
            set_value d path v
              = d\<lparr>orsf_setup := (orsf_setup d)\<lparr>tires := Some Tires_default\<rparr>\<rparr>
            \<and> set_value d path v \<noteq> d)
       \<and> (sec = ''brakes'' \<and> fld \<notin> set brakes_fields \<and> brakes (orsf_setup d) = None \<longrightarrow>
            set_value d path v
              = d\<lparr>orsf_setup := (orsf_setup d)\<lparr>brakes := Some Brakes_default\<rparr>\<rparr>
            \<and> set_value d path v \<noteq> d)"
proof (intro conjI impI)
  assume a: "sec = ''aero'' \<and> fld \<notin> set aero_fields \<and> aero (orsf_setup d) = None"
  with assms have sp: "split_path path = ''setup'' # ''aero'' # fld # rest" by simp
  show eq: "set_value d path v
        = d\<lparr>orsf_setup := (orsf_setup d)\<lparr>aero := Some Aerodynamics_default\<rparr>\<rparr>"
    using a by (simp add: set_value_aero_view [OF sp] assign_unknown)
  have "aero (orsf_setup (set_value d path v)) \<noteq> aero (orsf_setup d)"
    using a by (simp add: eq)
  then show "set_value d path v \<noteq> d" by auto
next
  assume a: "sec = ''tires'' \<and> fld \<notin> set tires_fields \<and> tires (orsf_setup d) = None"
  with assms have sp: "split_path path = ''setup'' # ''tires'' # fld # rest" by simp
  show eq: "set_value d path v
        = d\<lparr>orsf_setup := (orsf_setup d)\<lparr>tires := Some Tires_default\<rparr>\<rparr>"
    using a by (simp add: set_value_tires_view [OF sp] assign_unknown)
  have "tires (orsf_setup (set_value d path v)) \<noteq> tires (orsf_setup d)"
    using a by (simp add: eq)
  then show "set_value d path v \<noteq> d" by auto
next
  assume a: "sec = ''brakes'' \<and> fld \<notin> set brakes_fields \<and> brakes (orsf_setup d) = None"
  with assms have sp: "split_path path = ''setup'' # ''brakes'' # fld # rest" by simp
  show eq: "set_value d path v
        = d\<lparr>orsf_setup := (orsf_setup d)\<lparr>brakes := Some Brakes_default\<rparr>\<rparr>"
    using a by (simp add: set_value_brakes_view [OF sp] assign_unknown)
  have "brakes (orsf_setup (set_value d path v)) \<noteq> brakes (orsf_setup d)"
    using a by (simp add: eq)
  then show "set_value d path v \<noteq> d" by auto
qed

theorem set_value_unknown_leaf_creates_container_witness:
  "split_path ''setup.aero.flap_angle'' = ''setup'' # ''aero'' # ''flap_angle'' # []
   \<and> ''flap_angle'' \<notin> set aero_fields \<and> aero (orsf_setup ORSF_default) = None
   \<and> set_value ORSF_default ''setup.aero.flap_angle'' 3
       = ORSF_default\<lparr>orsf_setup := (orsf_setup ORSF_default)\<lparr>aero := Some Aerodynamics_default\<rparr>\<rparr>
   \<and> set_value ORSF_default ''setup.aero.flap_angle'' 3 \<noteq> ORSF_default
   \<and> split_path ''setup.tires.compound'' = ''setup'' # ''tires'' # ''compound'' # []
   \<and> ''compound'' \<notin> set tires_fields \<and> tires (orsf_setup ORSF_default) = None
   \<and> set_value ORSF_default ''setup.tires.compound'' 3
       = ORSF_default\<lparr>orsf_setup := (orsf_setup ORSF_default)\<lparr>tires := Some Tires_default\<rparr>\<rparr>
   \<and> split_path ''setup.brakes.disc_type'' = ''setup'' # ''brakes'' # ''disc_type'' # []
   \<and> ''disc_type'' \<notin> set brakes_fields \<and> brakes (orsf_setup ORSF_default) = None
   \<and> set_value ORSF_default ''setup.brakes.disc_type'' 3
       = ORSF_default\<lparr>orsf_setup := (orsf_setup ORSF_default)\<lparr>brakes := Some Brakes_default\<rparr>\<rparr>"
proof -
  have s1: "split_path ''setup.aero.flap_angle'' = ''setup'' # ''aero'' # ''flap_angle'' # []"
    and s2: "split_path ''setup.tires.compound'' = ''setup'' # ''tires'' # ''compound'' # []"
    and s3: "split_path ''setup.brakes.disc_type'' = ''setup'' # ''brakes'' # ''disc_type'' # []"
    by (simp_all add: split_path_def split_def)
  have n: "''flap_angle'' \<notin> set aero_fields" "''compound'' \<notin> set tires_fields"
    "''disc_type'' \<notin> set brakes_fields"
    by (simp_all add: aero_fields_def tires_fields_def brakes_fields_def)
  have e: "aero (orsf_setup ORSF_default) = None" "tires (orsf_setup ORSF_default) = None"
    "brakes (orsf_setup ORSF_default) = None"
    by (simp_all add: ORSF_default_def Setup_default_def)
  note a = set_value_unknown_leaf_creates_container [OF s1, of ORSF_default 3,
      THEN conjunct1, THEN mp, OF conjI [OF refl conjI [OF n(1) e(1)]]]
  note t = set_value_unknown_leaf_creates_container [OF s2, of ORSF_default 3,
      THEN conjunct2, THEN conjunct1, THEN mp, OF conjI [OF refl conjI [OF n(2) e(2)]]]
  note b = set_value_unknown_leaf_creates_container [OF s3, of ORSF_default 3,
      THEN conjunct2, THEN conjunct2, THEN mp, OF conjI [OF refl conjI [OF n(3) e(3)]]]
  show ?thesis
    by (intro conjI s1 s2 s3 n e a [THEN conjunct1] a [THEN conjunct2] t [THEN conjunct1]
        b [THEN conjunct1])
qed

text \<open>
  Claim C3 does not hold of the code: \<open>get_value\<close> returns no value for every path that
  starts with \<open>setup.gearing.\<close>, whatever the document.  For a document whose ratio list is
  \<open>[3.5, 2.8]\<close>, \<open>get_value\<close> on \<open>setup.gearing.gear_0\<close> returns no value, while
  \<open>flatten_orsf\<close> emits 3.5 under that very key.
\<close>

theorem get_value_has_no_gearing_block:
  "get_value orsf (''setup.gearing.'' @ leaf) = None
   \<and> get_value
     (ORSF_default\<lparr>orsf_setup := Setup_default\<lparr>gearing :=
        Some \<lparr>gear_ratios = Some [3.5, 2.8], reverse_ratio = None\<rparr>\<rparr>\<rparr>)
     ''setup.gearing.gear_0'' = None
   \<and> flatten_orsf
     (ORSF_default\<lparr>orsf_setup := Setup_default\<lparr>gearing :=
        Some \<lparr>gear_ratios = Some [3.5, 2.8], reverse_ratio = None\<rparr>\<rparr>\<rparr>)
     ''setup.gearing.gear_0'' = Some 3.5"
proof (intro conjI)
  show "get_value orsf (''setup.gearing.'' @ leaf) = None"
    by (simp add: split_path_def split_def get_value_defs)
  show "get_value
     (ORSF_default\<lparr>orsf_setup := Setup_default\<lparr>gearing :=
        Some \<lparr>gear_ratios = Some [3.5, 2.8], reverse_ratio = None\<rparr>\<rparr>\<rparr>)
     ''setup.gearing.gear_0'' = None"
    by (simp add: split_path_def split_def get_value_defs)
  show "flatten_orsf
     (ORSF_default\<lparr>orsf_setup := Setup_default\<lparr>gearing :=
        Some \<lparr>gear_ratios = Some [3.5, 2.8], reverse_ratio = None\<rparr>\<rparr>\<rparr>)
     ''setup.gearing.gear_0'' = Some 3.5"
    by (simp add: flatten_orsf_def ORSF_default_def Setup_default_def flatten_aero_def
        flatten_suspension_def flatten_tires_def flatten_drivetrain_def flatten_gearing_def
        flatten_brakes_def flatten_electronics_def flatten_fuel_def add_optional_def
        to_string_nat.simps digit_char_def)
qed

subsection \<open>Applying a list of mappings\<close>








section \<open>Properties of the lookup table converter\<close>

lemma LookupTableConverter_iff:
  "LookupTableConverter table t \<longleftrightarrow> mset t = mset table \<and> sorted (map lut_input t)"
  by (auto simp: LookupTableConverter_def std_sort_def lut_less_def sorted_map not_less
      elim: sorted_wrt_mono_rel [rotated])

lemma std_sort_lut_iff:
  "std_sort lut_less xs ys \<longleftrightarrow> mset ys = mset xs \<and> sorted (map lut_input ys)"
  using LookupTableConverter_iff by (simp add: LookupTableConverter_def)

lemma filter_key_distinct:
  assumes "distinct (map f xs)" and "k \<in> set xs"
  shows "filter (\<lambda>x. f k = f x) xs = [k]"
  using assms
proof (induction xs)
  case Nil
  then show ?case by simp
next
  case (Cons x xs)
  show ?case
  proof (cases "k = x")
    case True
    with Cons.prems have "\<forall>y\<in>set xs. f k \<noteq> f y" by auto
    with True show ?thesis by (simp add: filter_empty_conv)
  next
    case False
    with Cons.prems have k: "k \<in> set xs" by simp
    then have "f k \<in> f ` set xs" by simp
    with Cons.prems have "f k \<noteq> f x" by auto
    with Cons k show ?thesis by simp
  qed
qed

lemma std_sort_lut_unique:
  assumes "std_sort lut_less xs ys" and "distinct (map lut_input xs)"
  shows "ys = sort_key lut_input xs"
proof -
  from assms(1) have m: "mset ys = mset xs" and s: "sorted (map lut_input ys)"
    by (simp_all add: std_sort_lut_iff)
  from m have "mset (map lut_input ys) = mset (map lut_input xs)" by simp
  with assms(2) have d: "distinct (map lut_input ys)"
    using mset_eq_imp_distinct_iff by blast
  have "filter (\<lambda>x. lut_input k = lut_input x) ys = filter (\<lambda>x. lut_input k = lut_input x) xs"
    if "k \<in> set ys" for k
  proof -
    from that m have "k \<in> set xs" using mset_eq_setD by blast
    then show ?thesis
      using that by (simp add: filter_key_distinct [OF d] filter_key_distinct [OF assms(2)])
  qed
  then show ?thesis
    by (rule properties_for_sort_key [OF m _ s, symmetric])
qed

lemma find_segment_bracket:
  assumes "sorted (map lut_input t)" and "Suc i < length t"
      and "lut_input (t ! i) < x" and "x \<le> lut_input (t ! Suc i)"
  shows "find_segment t x =
           Some (lerp x (lut_input (t ! i)) (lut_input (t ! Suc i))
                   (lut_output (t ! i)) (lut_output (t ! Suc i)))"
  using assms
proof (induction t x arbitrary: i rule: find_segment.induct)
  case (1 a b rest v)
  show ?case
  proof (cases i)
    case 0
    with "1.prems" show ?thesis by simp
  next
    case (Suc j)
    with "1.prems" have j: "Suc j < length (b # rest)" by simp
    have "lut_input b \<le> lut_input ((b # rest) ! j)"
      using "1.prems"(1) j by (cases j) (auto simp: )
    with "1.prems" Suc have nb: "\<not> (v \<ge> lut_input a \<and> v \<le> lut_input b)" by auto
    have sorted_tail: "sorted (map lut_input (b # rest))"
      using "1.prems"(1) by simp
    have lo: "lut_input ((b # rest) ! j) < v" and hi: "v \<le> lut_input ((b # rest) ! Suc j)"
      using "1.prems"(3,4) Suc by simp_all
    have "find_segment (a # b # rest) v = find_segment (b # rest) v"
      using nb by auto
    also note "1.IH" [OF nb sorted_tail j lo hi]
    finally show ?thesis
      by (simp add: Suc)
  qed
qed simp_all

lemma lerp_mono:
  assumes "x0 < x1" and "y0 \<le> y1" and "x \<le> x'"
  shows "lerp x x0 x1 y0 y1 \<le> lerp x' x0 x1 y0 y1"
proof -
  have "(y1 - y0) * (x - x0) \<le> (y1 - y0) * (x' - x0)"
    using assms by (intro mult_left_mono) auto
  then have "(y1 - y0) * (x - x0) / (x1 - x0) \<le> (y1 - y0) * (x' - x0) / (x1 - x0)"
    using assms(1) by (intro divide_right_mono) auto
  then show ?thesis by (simp add: lerp_def)
qed


lemma lut_entry_simps [simp]:
  "lut_input (lut_entry i out) = i" "lut_output (lut_entry i out) = out"
  by (simp_all add: lut_entry_def)

lemma lut_entry_eq [simp]: "lut_entry i out = lut_entry i' out' \<longleftrightarrow> i = i' \<and> out = out'"
  by (simp add: lut_entry_def)

lemma reverse_entry_lut_entry [simp]: "reverse_entry (lut_entry i out) = lut_entry out i"
  by (simp add: reverse_entry_def lut_entry_def)

lemma sorted_inputs_bounds:
  assumes "sorted (map lut_input t)" and "e \<in> set t"
  shows "lut_input (hd t) \<le> lut_input e" and "lut_input e \<le> lut_input (last t)"
proof -
  from assms(2) obtain k where k: "k < length t" "e = t ! k"
    by (auto simp: in_set_conv_nth)
  then have ne: "t \<noteq> []" by auto
  have "map lut_input t ! 0 \<le> map lut_input t ! k"
    using assms(1) k(1) by (intro sorted_nth_mono) auto
  then show "lut_input (hd t) \<le> lut_input e"
    using k ne by (simp add: hd_conv_nth)
  have "map lut_input t ! k \<le> map lut_input t ! (length t - 1)"
    using assms(1) k(1) by (intro sorted_nth_mono) auto
  then show "lut_input e \<le> lut_input (last t)"
    using k ne by (simp add: last_conv_nth)
qed

lemma interpolate_inside_segment:
  assumes "sorted (map lut_input t)" and "Suc i < length t"
      and "lut_input (t ! i) < x" and "x < lut_input (t ! Suc i)"
  shows "interpolate t x =
           Inr (lerp x (lut_input (t ! i)) (lut_input (t ! Suc i))
                  (lut_output (t ! i)) (lut_output (t ! Suc i)))"
proof -
  have ne: "t \<noteq> []" using assms(2) by auto
  have "lut_input (hd t) \<le> lut_input (t ! i)"
    using assms(1,2) by (intro sorted_inputs_bounds) auto
  then have lo: "\<not> x \<le> lut_input (hd t)" using assms(3) by simp
  have "lut_input (t ! Suc i) \<le> lut_input (last t)"
    using assms(1,2) by (intro sorted_inputs_bounds) auto
  then have hi: "\<not> x \<ge> lut_input (last t)" using assms(4) by simp
  show ?thesis
    using ne lo hi find_segment_bracket [OF assms(1,2,3)] assms(4)
    by (simp add: interpolate_def)
qed

lemma example_table_stored:
  assumes "LookupTableConverter example_table t"
  shows "t = example_table"
proof -
  have "t = sort_key lut_input example_table"
    using assms unfolding LookupTableConverter_def
    by (rule std_sort_lut_unique) (simp add: example_table_def)
  then show ?thesis by (simp add: example_table_def)
qed

lemma example_table_interpolate: "interpolate example_table 25 = Inr 12.5"
  by (simp add: example_table_def interpolate_def lerp_def)

lemma example_table_reverse_lookup: "reverse_lookup example_table 25 r \<longleftrightarrow> r = Inr 50"
proof
  assume "reverse_lookup example_table 25 r"
  then obtain rt where rt: "std_sort lut_less (map reverse_entry example_table) rt"
    and r: "r = interpolate rt 25"
    by (cases rule: reverse_lookup.cases) (auto simp: example_table_def)
  have "rt = sort_key lut_input (map reverse_entry example_table)"
    using rt by (rule std_sort_lut_unique) (simp add: example_table_def)
  then have "rt = [lut_entry 0 0, lut_entry 25 50, lut_entry 75 100]"
    by (simp add: example_table_def)
  then show "r = Inr 50"
    using r by (simp add: interpolate_def lerp_def)
next
  assume r: "r = Inr 50"
  have s: "std_sort lut_less (map reverse_entry example_table)
             [lut_entry 0 0, lut_entry 25 50, lut_entry 75 100]"
    by (simp add: std_sort_lut_iff example_table_def)
  have "reverse_lookup example_table 25
          (interpolate [lut_entry 0 0, lut_entry 25 50, lut_entry 75 100] 25)"
    by (rule reverse_sorted [OF _ s]) (simp add: example_table_def)
  then show "reverse_lookup example_table 25 r"
    using r by (simp add: interpolate_def lerp_def)
qed

text \<open>
  Claim C5, as amended.  For every converter built from a non-empty table: \<open>interpolate\<close>
  returns the first stored entry's output for every \<open>x\<close> at or below its input, which is the
  minimum input; for every \<open>x\<close> at or above the last stored entry's input, which is the
  maximum input, it returns the last stored entry's output (the first one's when \<open>x\<close> is also
  at or below the minimum); between two consecutive stored points whose outputs do not
  decrease, \<open>interpolate\<close> is monotonic non-decreasing on the open interval between their
  inputs.  For the table \<open>{(0,0),(50,25),(100,75)}\<close>, \<open>interpolate(25)\<close> is 12.5 and
  \<open>reverse_lookup(25)\<close> is 50.
\<close>

theorem interpolate_bounds_and_monotone:
  assumes "LookupTableConverter table t" and "table \<noteq> []"
  shows "(x_lo \<le> lut_input (hd t) \<longrightarrow> interpolate t x_lo = Inr (lut_output (hd t)))
       \<and> (lut_input (last t) \<le> x_hi \<longrightarrow>
            interpolate t x_hi
              = Inr (lut_output (if x_hi \<le> lut_input (hd t) then hd t else last t)))
       \<and> (e \<in> set table \<longrightarrow>
            lut_input (hd t) \<le> lut_input e \<and> lut_input e \<le> lut_input (last t))
       \<and> hd t \<in> set table \<and> last t \<in> set table
       \<and> (Suc i < length t \<and> lut_output (t ! i) \<le> lut_output (t ! Suc i)
            \<and> lut_input (t ! i) < x \<and> x \<le> x' \<and> x' < lut_input (t ! Suc i) \<longrightarrow>
            \<not> isl (interpolate t x) \<and> \<not> isl (interpolate t x')
            \<and> projr (interpolate t x) \<le> projr (interpolate t x'))
       \<and> (table = example_table \<longrightarrow>
            interpolate t 25 = Inr 12.5 \<and> (reverse_lookup t 25 r \<longleftrightarrow> r = Inr 50))"
proof -
  from assms(1) have m: "mset t = mset table" and s: "sorted (map lut_input t)"
    by (simp_all add: LookupTableConverter_iff)
  from m have st: "set t = set table" by (rule mset_eq_setD)
  from m assms(2) have ne: "t \<noteq> []" by auto
  have lo: "interpolate t x_lo = Inr (lut_output (hd t))" if "x_lo \<le> lut_input (hd t)"
    using that ne by (simp add: interpolate_def)
  have hi: "interpolate t x_hi
              = Inr (lut_output (if x_hi \<le> lut_input (hd t) then hd t else last t))"
    if "lut_input (last t) \<le> x_hi"
    using that ne by (simp add: interpolate_def)
  have bounds: "lut_input (hd t) \<le> lut_input e \<and> lut_input e \<le> lut_input (last t)"
    if "e \<in> set table"
  proof -
    from that have "e \<in> set t" unfolding st .
    then show ?thesis by (intro conjI sorted_inputs_bounds [OF s])
  qed
  have ends: "hd t \<in> set table" "last t \<in> set table"
    using hd_in_set [OF ne] last_in_set [OF ne] unfolding st .
  have mono: "\<not> isl (interpolate t x) \<and> \<not> isl (interpolate t x')
            \<and> projr (interpolate t x) \<le> projr (interpolate t x')"
    if a: "Suc i < length t \<and> lut_output (t ! i) \<le> lut_output (t ! Suc i)
            \<and> lut_input (t ! i) < x \<and> x \<le> x' \<and> x' < lut_input (t ! Suc i)"
  proof -
    from a have "interpolate t x =
           Inr (lerp x (lut_input (t ! i)) (lut_input (t ! Suc i))
                  (lut_output (t ! i)) (lut_output (t ! Suc i)))"
      by (intro interpolate_inside_segment [OF s]) auto
    moreover from a have "interpolate t x' =
           Inr (lerp x' (lut_input (t ! i)) (lut_input (t ! Suc i))
                  (lut_output (t ! i)) (lut_output (t ! Suc i)))"
      by (intro interpolate_inside_segment [OF s]) auto
    moreover from a have "lerp x (lut_input (t ! i)) (lut_input (t ! Suc i))
                  (lut_output (t ! i)) (lut_output (t ! Suc i))
          \<le> lerp x' (lut_input (t ! i)) (lut_input (t ! Suc i))
                  (lut_output (t ! i)) (lut_output (t ! Suc i))"
      by (intro lerp_mono) auto
    ultimately show ?thesis by simp
  qed
  have ex: "interpolate t 25 = Inr 12.5 \<and> (reverse_lookup t 25 r \<longleftrightarrow> r = Inr 50)"
    if "table = example_table"
    using that assms(1) example_table_stored [of t] example_table_interpolate
      example_table_reverse_lookup [of r] by simp
  show ?thesis
    by (intro conjI impI lo hi ends mono ex; (elim conjE)?; (intro bounds [THEN conjunct1] bounds [THEN conjunct2])?; assumption?)
qed


theorem interpolate_bounds_and_monotone_witness:
  "LookupTableConverter example_table example_table \<and> example_table \<noteq> []
   \<and> interpolate example_table (- 10) = Inr 0
   \<and> interpolate example_table 150 = Inr 75
   \<and> lut_entry 50 25 \<in> set example_table
   \<and> \<not> isl (interpolate example_table 10) \<and> \<not> isl (interpolate example_table 40)
   \<and> projr (interpolate example_table 10) \<le> projr (interpolate example_table 40)
   \<and> interpolate example_table 25 = Inr 12.5
   \<and> reverse_lookup example_table 25 (Inr 50)"
proof -
  have c: "LookupTableConverter example_table example_table"
    by (simp add: LookupTableConverter_iff example_table_def)
  have ne: "example_table \<noteq> []"
    by (simp add: example_table_def)
  have h: "hd example_table = lut_entry 0 0" "last example_table = lut_entry 100 75"
    "example_table ! 0 = lut_entry 0 0" "example_table ! Suc 0 = lut_entry 50 25"
    "length example_table = 3" "lut_entry 50 25 \<in> set example_table"
    by (simp_all add: example_table_def)
  show ?thesis
    using c ne h(6)
      interpolate_bounds_and_monotone [OF c ne, of "- 10" 150 "lut_entry 50 25" 0 10 40 "Inr 50"]
    by (simp add: h)
qed

text \<open>
  Claim C5 as stated fails: for the table \<open>{(0,10),(1,0)}\<close>, between its two consecutive
  points, \<open>interpolate(0.25)\<close> is 7.5 and \<open>interpolate(0.75)\<close> is 2.5.
\<close>

theorem interpolate_decreasing_segment:
  "LookupTableConverter [lut_entry 0 10, lut_entry 1 0] [lut_entry 0 10, lut_entry 1 0]
   \<and> interpolate [lut_entry 0 10, lut_entry 1 0] (1 / 4) = Inr (15 / 2)
   \<and> interpolate [lut_entry 0 10, lut_entry 1 0] (3 / 4) = Inr (5 / 2)"
  by (simp add: LookupTableConverter_iff interpolate_def lerp_def)

text \<open>
  Claim C4, as amended.  The constructor sorts its table ascending by input regardless of the
  order the entries were supplied in: a stored table always exists, it holds exactly the
  supplied entries in non-decreasing order of input, the possible stored tables are the same
  for every order of supply, and the stored table is unique when no two entries share an
  input.  The sort is \<open>std::sort\<close>, which fixes no order among entries that share an input.
  A query at the smallest input returns the output of the entry stored first; a query at the
  largest input, when that is larger than the smallest, returns the output of the entry stored
  last.
\<close>

theorem LookupTableConverter_sorts:
  "LookupTableConverter table (sort_key lut_input table)
   \<and> (LookupTableConverter table t \<longrightarrow> sorted (map lut_input t) \<and> mset t = mset table)
   \<and> (mset table' = mset table \<longrightarrow>
        LookupTableConverter table' t = LookupTableConverter table t)
   \<and> (LookupTableConverter table t \<and> distinct (map lut_input table) \<longrightarrow>
        t = sort_key lut_input table)
   \<and> (LookupTableConverter table t \<and> t \<noteq> [] \<longrightarrow>
        interpolate t (lut_input (hd t)) = Inr (lut_output (hd t)))
   \<and> (LookupTableConverter table t \<and> t \<noteq> [] \<and> lut_input (hd t) < lut_input (last t) \<longrightarrow>
        interpolate t (lut_input (last t)) = Inr (lut_output (last t)))"
proof (intro conjI impI)
  show "LookupTableConverter table (sort_key lut_input table)"
    by (simp add: LookupTableConverter_iff)
  show "LookupTableConverter table' t = LookupTableConverter table t"
    if "mset table' = mset table"
    using that by (simp add: LookupTableConverter_iff)
  show "t = sort_key lut_input table"
    if "LookupTableConverter table t \<and> distinct (map lut_input table)"
    using that std_sort_lut_unique [of table t] by (simp add: LookupTableConverter_def)
  show "interpolate t (lut_input (hd t)) = Inr (lut_output (hd t))"
    if "LookupTableConverter table t \<and> t \<noteq> []"
    using that by (simp add: interpolate_def)
  show "interpolate t (lut_input (last t)) = Inr (lut_output (last t))"
    if "LookupTableConverter table t \<and> t \<noteq> [] \<and> lut_input (hd t) < lut_input (last t)"
    using that by (simp add: interpolate_def)
qed (simp_all add: LookupTableConverter_iff)

theorem LookupTableConverter_sorts_witness:
  "LookupTableConverter [lut_entry 100 75, lut_entry 0 0, lut_entry 50 25] example_table
   \<and> sorted (map lut_input example_table)
   \<and> mset example_table = mset [lut_entry 100 75, lut_entry 0 0, lut_entry 50 25]
   \<and> mset [lut_entry 50 25, lut_entry 100 75, lut_entry 0 0]
       = mset [lut_entry 100 75, lut_entry 0 0, lut_entry 50 25]
   \<and> LookupTableConverter [lut_entry 50 25, lut_entry 100 75, lut_entry 0 0] example_table
   \<and> distinct (map lut_input [lut_entry 100 75, lut_entry 0 0, lut_entry 50 25])
   \<and> example_table = sort_key lut_input [lut_entry 100 75, lut_entry 0 0, lut_entry 50 25]
   \<and> example_table \<noteq> []
   \<and> interpolate example_table (lut_input (hd example_table))
       = Inr (lut_output (hd example_table))
   \<and> lut_input (hd example_table) < lut_input (last example_table)
   \<and> interpolate example_table (lut_input (last example_table))
       = Inr (lut_output (last example_table))"
proof -
  let ?table = "[lut_entry 100 75, lut_entry 0 0, lut_entry 50 25]"
  let ?table' = "[lut_entry 50 25, lut_entry 100 75, lut_entry 0 0]"
  have c: "LookupTableConverter ?table example_table"
    by (simp add: LookupTableConverter_iff example_table_def)
  have p: "mset ?table' = mset ?table"
    by simp
  have d: "distinct (map lut_input ?table)"
    by simp
  have ne: "example_table \<noteq> []" "lut_input (hd example_table) < lut_input (last example_table)"
    by (simp_all add: example_table_def)
  note T = LookupTableConverter_sorts [of ?table example_table ?table']
  note T2 = T [THEN conjunct2]
  note T3 = T2 [THEN conjunct2]
  note T4 = T3 [THEN conjunct2]
  note T5 = T4 [THEN conjunct2]
  have r2: "sorted (map lut_input example_table) \<and> mset example_table = mset ?table"
    using T2 [THEN conjunct1] c by (rule mp)
  have r3: "LookupTableConverter ?table' example_table"
    using T3 [THEN conjunct1, THEN mp, OF p] c by (rule ssubst)
  have r4: "example_table = sort_key lut_input ?table"
    using T4 [THEN conjunct1] c d by blast
  have r5: "interpolate example_table (lut_input (hd example_table))
       = Inr (lut_output (hd example_table))"
    using T5 [THEN conjunct1] c ne(1) by blast
  have r6: "interpolate example_table (lut_input (last example_table))
       = Inr (lut_output (last example_table))"
    using T5 [THEN conjunct2] c ne by blast
  show ?thesis
    by (intro conjI c r2 [THEN conjunct1] r2 [THEN conjunct2] p r3 d r4 ne r5 r6)
qed

text \<open>
  Claim C4 as stated fails.  For the supplied table \<open>{(0,0),(1,5),(1,1)}\<close> the stored table
  that keeps the supplied order is a result the constructor may leave, and on it the query 1
  returns 1, the output of the later duplicate; the table with the two duplicates exchanged
  is a result the contract of \<open>std::sort\<close> admits as well.
\<close>

theorem later_duplicate_wins_at_maximum:
  "LookupTableConverter [lut_entry 0 0, lut_entry 1 5, lut_entry 1 1]
     [lut_entry 0 0, lut_entry 1 5, lut_entry 1 1]
   \<and> interpolate [lut_entry 0 0, lut_entry 1 5, lut_entry 1 1] 1 = Inr 1
   \<and> LookupTableConverter [lut_entry 0 0, lut_entry 1 5, lut_entry 1 1]
     [lut_entry 0 0, lut_entry 1 1, lut_entry 1 5]"
  by (simp add: LookupTableConverter_iff interpolate_def)

section \<open>Properties of the validator\<close>

lemma emitsD: "emits F found \<Longrightarrow> F errors = errors @ found"
  unfolding emits_def by blast

lemma emits_id: "emits (\<lambda>errors. errors) []"
  by (simp add: emits_def)

lemma emits_push_back: "emits (\<lambda>errors. errors @ [e]) [e]"
  by (simp add: emits_def)

lemma emits_Let:
  assumes "emits F xs" and "emits G ys"
  shows "emits (\<lambda>errors0. let errors = F errors0 in G errors) (xs @ ys)"
  by (simp add: emits_def Let_def emitsD [OF assms(1)] emitsD [OF assms(2)])

lemma emits_option:
  assumes "\<And>x. emits (G x) (g x)"
  shows "emits (\<lambda>errors. case opt of None \<Rightarrow> errors | Some x \<Rightarrow> G x errors)
           (case opt of None \<Rightarrow> [] | Some x \<Rightarrow> g x)"
proof (cases opt)
  case None
  then show ?thesis by (simp add: emits_id)
next
  case (Some x)
  then show ?thesis using assms [of x] by simp
qed

lemma emits_if:
  assumes "emits F xs" and "emits G ys"
  shows "emits (\<lambda>errors. if c then F errors else G errors) (if c then xs else ys)"
  using assms by (cases c) simp_all

lemma emits_checks:
  "emits (check_required fld p) (required_finding fld p)"
  "emits (\<lambda>errors. check_range T fld v lo hi errors sev) (range_finding T fld v lo hi sev)"
  "emits (check_percentage T fld v) (percentage_finding T fld v)"
  "emits (check_positive T fld v) (positive_finding T fld v)"
  "emits (check_non_negative T fld v) (non_negative_finding T fld v)"
  "emits (check_iso8601 fld s) (iso8601_finding fld s)"
  by (simp_all add: emits_def check_required_def check_range_def check_percentage_def
      check_positive_def check_non_negative_def check_iso8601_def
      required_finding_def range_finding_def percentage_finding_def positive_finding_def
      non_negative_finding_def iso8601_finding_def)

lemmas emits_steps = emits_Let emits_option emits_if emits_checks emits_id emits_push_back

lemma validate_gear_ratios_findings:
  "validate_gear_ratios ratios i errors =
     errors @ map (\<lambda>(j, r). \<lparr>severity = Error, code = OutOfRange,
                     field = ''setup.gearing.gear_ratios['' @ to_string_nat j @ '']'',
                     message = ''Gear ratio must be positive'',
                     expected = None, actual = None\<rparr>)
                (filter (\<lambda>(j, r). r \<le> 0) (List.enumerate i ratios))"
  by (induction ratios arbitrary: i errors) simp_all

lemma emits_validate_schema: "emits (validate_schema orsf) (schema_findings orsf)"
  unfolding validate_schema_def [abs_def] schema_findings_def by (intro emits_steps)

lemma emits_validate_metadata: "emits (validate_metadata md) (metadata_findings md)"
  unfolding validate_metadata_def [abs_def] metadata_findings_def by (intro emits_steps)

lemma emits_validate_car: "emits (validate_car c) (car_findings c)"
  unfolding validate_car_def [abs_def] car_findings_def by (intro emits_steps)

lemma emits_validate_context: "emits (validate_context T co) (context_findings T co)"
  unfolding validate_context_def [abs_def] context_findings_def by (intro emits_steps)

lemma emits_validate_aero: "emits (validate_aero T ao) (aero_findings T ao)"
  unfolding validate_aero_def [abs_def] aero_findings_def by (intro emits_steps)

lemma emits_validate_corner_suspension:
  "emits (validate_corner_suspension T co corner_name) (corner_findings T co corner_name)"
  unfolding validate_corner_suspension_def [abs_def] corner_findings_def
  by (intro emits_steps)

lemma emits_validate_suspension: "emits (validate_suspension T so) (suspension_findings T so)"
  unfolding validate_suspension_def [abs_def] suspension_findings_def
  by (intro emits_steps emits_validate_corner_suspension)

lemma emits_validate_tires: "emits (validate_tires T tio) (tires_findings T tio)"
  unfolding validate_tires_def [abs_def] tires_findings_def by (intro emits_steps)

lemma emits_validate_drivetrain: "emits (validate_drivetrain T dto) (drivetrain_findings T dto)"
  unfolding validate_drivetrain_def [abs_def] drivetrain_findings_def by (intro emits_steps)

lemma emits_validate_gear_ratios:
  "emits (validate_gear_ratios ratios i) (gear_ratio_findings ratios i)"
  by (simp add: emits_def gear_ratio_findings_def validate_gear_ratios_findings)

lemma emits_validate_gearing: "emits (validate_gearing T go) (gearing_findings T go)"
  unfolding validate_gearing_def [abs_def] gearing_findings_def
  by (intro emits_steps emits_validate_gear_ratios)

lemma emits_validate_brakes: "emits (validate_brakes T bo) (brakes_findings T bo)"
  unfolding validate_brakes_def [abs_def] brakes_findings_def by (intro emits_steps)

lemma emits_validate_electronics:
  "emits (validate_electronics T eo) (electronics_findings T eo)"
  unfolding validate_electronics_def [abs_def] electronics_findings_def by (intro emits_steps)

lemma emits_validate_fuel: "emits (validate_fuel T fo) (fuel_findings T fo)"
  unfolding validate_fuel_def [abs_def] fuel_findings_def by (intro emits_steps)

lemma emits_validate_setup: "emits (validate_setup T s) (setup_findings T s)"
  unfolding validate_setup_def [abs_def] setup_findings_def
  by (intro emits_Let emits_validate_aero emits_validate_suspension
      emits_validate_tires emits_validate_drivetrain emits_validate_gearing
      emits_validate_brakes emits_validate_electronics emits_validate_fuel)

lemma emits_validate_cross_field:
  "emits (validate_cross_field T orsf) (cross_field_findings T orsf)"
  unfolding validate_cross_field_def [abs_def] cross_field_findings_def by (intro emits_steps)

lemma validate_eq_findings: "validate T orsf = validate_findings T orsf"
proof -
  have "emits (\<lambda>errors0.
           let errors = validate_schema orsf errors0;
               errors = validate_metadata (metadata orsf) errors;
               errors = validate_car (car orsf) errors;
               errors = validate_context T (orsf_context orsf) errors;
               errors = validate_setup T (orsf_setup orsf) errors
           in validate_cross_field T orsf errors)
         (validate_findings T orsf)"
    unfolding validate_findings_def
    by (intro emits_Let emits_validate_schema emits_validate_metadata emits_validate_car
        emits_validate_context emits_validate_setup emits_validate_cross_field)
  from emitsD [OF this, of "[]"] show ?thesis
    by (simp add: validate_def)
qed

text \<open>
  Claim C9.  \<open>validate\<close> is a total function from a document to a list of findings: it
  returns its findings as data, raises nothing and returns no changed document.  Every check
  runs, whatever was found before it: the result of \<open>validate\<close> is the findings of the
  schema, metadata, car, context, setup and cross-field checks one after the other, where the
  findings of each section are the findings of its checks one after the other and the
  finding of each check depends on the checked field alone; and every function of the
  validator, down to the six helpers, returns the vector it was given with exactly its own
  findings pushed behind it.  A single document can produce an Error and a Warning in one
  run, and several findings in one section do not keep the later sections from reporting.
\<close>

theorem validate_runs_every_check:
  "validate T orsf =
     schema_findings orsf @ metadata_findings (metadata orsf) @ car_findings (car orsf)
     @ context_findings T (orsf_context orsf) @ setup_findings T (orsf_setup orsf)
     @ cross_field_findings T orsf
   \<and> validate_schema orsf errors = errors @ schema_findings orsf
   \<and> validate_metadata md errors = errors @ metadata_findings md
   \<and> validate_car c errors = errors @ car_findings c
   \<and> validate_context T co errors = errors @ context_findings T co
   \<and> validate_setup T s errors = errors @ setup_findings T s
   \<and> validate_cross_field T orsf errors = errors @ cross_field_findings T orsf
   \<and> validate_aero T ao errors = errors @ aero_findings T ao
   \<and> validate_corner_suspension T cso corner_name errors
       = errors @ corner_findings T cso corner_name
   \<and> validate_suspension T so errors = errors @ suspension_findings T so
   \<and> validate_tires T tio errors = errors @ tires_findings T tio
   \<and> validate_drivetrain T dto errors = errors @ drivetrain_findings T dto
   \<and> validate_gear_ratios ratios i errors = errors @ gear_ratio_findings ratios i
   \<and> validate_gearing T go errors = errors @ gearing_findings T go
   \<and> validate_brakes T bo errors = errors @ brakes_findings T bo
   \<and> validate_electronics T eo errors = errors @ electronics_findings T eo
   \<and> validate_fuel T fo errors = errors @ fuel_findings T fo
   \<and> check_required fld is_present errors = errors @ required_finding fld is_present
   \<and> check_range T fld v lo hi errors sev = errors @ range_finding T fld v lo hi sev
   \<and> check_percentage T fld v errors = errors @ percentage_finding T fld v
   \<and> check_positive T fld v errors = errors @ positive_finding T fld v
   \<and> check_non_negative T fld v errors = errors @ non_negative_finding T fld v
   \<and> check_iso8601 fld str errors = errors @ iso8601_finding fld str
   \<and> validate T
         (create_test_setup\<lparr>
            metadata := (metadata create_test_setup)\<lparr>metadata_id := []\<rparr>,
            car := (car create_test_setup)\<lparr>car_class := Some ''Hypercar''\<rparr>\<rparr>)
       = [\<lparr>severity = Error, code = Required, field = ''metadata.id'',
           message = ''Required field is missing'', expected = None, actual = None\<rparr>,
          \<lparr>severity = Warning, code = InvalidFormat, field = ''car.class'',
           message = ''Unknown car class: Hypercar'', expected = None, actual = None\<rparr>]
   \<and> map (\<lambda>e. (severity e, field e))
         (validate T
            (create_test_setup\<lparr>
               metadata := (metadata create_test_setup)\<lparr>created_at := ''yesterday''\<rparr>,
               orsf_setup := (orsf_setup create_test_setup)\<lparr>
                 brakes := Some (Brakes_default\<lparr>brake_bias_pct := Some 150,
                            max_force_n := Some (- 1)\<rparr>),
                 fuel := Some \<lparr>start_fuel_l = Some (- 5), per_lap_consumption_l = Some 0,
                                stint_target_laps = Some 0, mixture_setting = None\<rparr>\<rparr>\<rparr>))
       = [(Warning, ''metadata.created_at''),
          (Error, ''setup.brakes.brake_bias_pct''), (Error, ''setup.brakes.max_force_n''),
          (Error, ''setup.fuel.start_fuel_l''), (Error, ''setup.fuel.per_lap_consumption_l''),
          (Error, ''setup.fuel.stint_target_laps'')]"
proof -
  have both: "validate T
         (create_test_setup\<lparr>
            metadata := (metadata create_test_setup)\<lparr>metadata_id := []\<rparr>,
            car := (car create_test_setup)\<lparr>car_class := Some ''Hypercar''\<rparr>\<rparr>)
       = [\<lparr>severity = Error, code = Required, field = ''metadata.id'',
           message = ''Required field is missing'', expected = None, actual = None\<rparr>,
          \<lparr>severity = Warning, code = InvalidFormat, field = ''car.class'',
           message = ''Unknown car class: Hypercar'', expected = None, actual = None\<rparr>]"
    by (simp add: validate_eq_findings validate_findings_def create_test_setup_def
        ORSF_default_def Setup_default_def
        Aerodynamics_default_def Tires_default_def Brakes_default_def
        schema_findings_def metadata_findings_def car_findings_def context_findings_def
        setup_findings_def aero_findings_def suspension_findings_def tires_findings_def
        drivetrain_findings_def gearing_findings_def brakes_findings_def
        electronics_findings_def fuel_findings_def cross_field_findings_def
        required_finding_def range_finding_def percentage_finding_def positive_finding_def
        iso8601_finding_def is_valid_iso8601_def date_time_pat_def millis_pat_def zone_pat_def
        is_digit_def valid_classes_def)
  have many: "map (\<lambda>e. (severity e, field e))
         (validate T
            (create_test_setup\<lparr>
               metadata := (metadata create_test_setup)\<lparr>created_at := ''yesterday''\<rparr>,
               orsf_setup := (orsf_setup create_test_setup)\<lparr>
                 brakes := Some (Brakes_default\<lparr>brake_bias_pct := Some 150,
                            max_force_n := Some (- 1)\<rparr>),
                 fuel := Some \<lparr>start_fuel_l = Some (- 5), per_lap_consumption_l = Some 0,
                                stint_target_laps = Some 0, mixture_setting = None\<rparr>\<rparr>\<rparr>))
       = [(Warning, ''metadata.created_at''),
          (Error, ''setup.brakes.brake_bias_pct''), (Error, ''setup.brakes.max_force_n''),
          (Error, ''setup.fuel.start_fuel_l''), (Error, ''setup.fuel.per_lap_consumption_l''),
          (Error, ''setup.fuel.stint_target_laps'')]"
    by (simp add: validate_eq_findings validate_findings_def create_test_setup_def
        ORSF_default_def Setup_default_def
        Aerodynamics_default_def Tires_default_def Brakes_default_def
        schema_findings_def metadata_findings_def car_findings_def context_findings_def
        setup_findings_def aero_findings_def suspension_findings_def tires_findings_def
        drivetrain_findings_def gearing_findings_def brakes_findings_def
        electronics_findings_def fuel_findings_def cross_field_findings_def
        required_finding_def range_finding_def percentage_finding_def positive_finding_def
        non_negative_finding_def
        iso8601_finding_def is_valid_iso8601_def date_time_pat_def millis_pat_def zone_pat_def
        is_digit_def valid_classes_def)
  show ?thesis
    by (intro conjI both many validate_eq_findings [unfolded validate_findings_def]
        emitsD [OF emits_validate_schema] emitsD [OF emits_validate_metadata]
        emitsD [OF emits_validate_car] emitsD [OF emits_validate_context]
        emitsD [OF emits_validate_setup] emitsD [OF emits_validate_cross_field]
        emitsD [OF emits_validate_aero] emitsD [OF emits_validate_corner_suspension]
        emitsD [OF emits_validate_suspension]
        emitsD [OF emits_validate_tires] emitsD [OF emits_validate_drivetrain]
        emitsD [OF emits_validate_gear_ratios]
        emitsD [OF emits_validate_gearing] emitsD [OF emits_validate_brakes]
        emitsD [OF emits_validate_electronics] emitsD [OF emits_validate_fuel]
        emitsD [OF emits_checks(1)] emitsD [OF emits_checks(2)] emitsD [OF emits_checks(3)]
        emitsD [OF emits_checks(4)] emitsD [OF emits_checks(5)] emitsD [OF emits_checks(6)])
qed

text \<open>
  Claim C8, as amended.  Gear-ratio validation produces a Warning finding when the present
  ratio list is empty, and one OutOfRange Error finding per negative-or-zero entry, in index
  order, addressed by index in the field path \<open>setup.gearing.gear_ratios[<index>]\<close> (the
  message is the fixed text \<open>Gear ratio must be positive\<close>); the document of the example
  program whose gear ratios are \<open>[3.5, -2.8, 2.3, 0.0, 1.6]\<close> produces exactly two findings,
  both OutOfRange Errors, at indices 1 and 3.
\<close>

theorem validate_gearing_findings:
  "validate_gearing T None errors = errors
   \<and> (gear_ratios g = Some ratios \<longrightarrow>
        validate_gearing T (Some g) errors =
          errors
          @ (if ratios = []
             then [\<lparr>severity = Warning, code = InvalidFormat,
                     field = ''setup.gearing.gear_ratios'',
                     message = ''Gear ratios array is empty'',
                     expected = None, actual = None\<rparr>]
             else [])
          @ map (\<lambda>(i, r). \<lparr>severity = Error, code = OutOfRange,
                     field = ''setup.gearing.gear_ratios['' @ to_string_nat i @ '']'',
                     message = ''Gear ratio must be positive'',
                     expected = None, actual = None\<rparr>)
              (filter (\<lambda>(i, r). r \<le> 0) (List.enumerate 0 ratios))
          @ (case reverse_ratio g of None \<Rightarrow> []
             | Some x \<Rightarrow> check_positive T ''setup.gearing.reverse_ratio'' x []))
   \<and> validate T invalid_gear_ratios_example =
        [\<lparr>severity = Error, code = OutOfRange, field = ''setup.gearing.gear_ratios[1]'',
          message = ''Gear ratio must be positive'', expected = None, actual = None\<rparr>,
         \<lparr>severity = Error, code = OutOfRange, field = ''setup.gearing.gear_ratios[3]'',
          message = ''Gear ratio must be positive'', expected = None, actual = None\<rparr>]"
proof (intro conjI impI)
  show "validate_gearing T None errors = errors"
    by (simp add: validate_gearing_def)
  show "validate_gearing T (Some g) errors =
          errors
          @ (if ratios = []
             then [\<lparr>severity = Warning, code = InvalidFormat,
                     field = ''setup.gearing.gear_ratios'',
                     message = ''Gear ratios array is empty'',
                     expected = None, actual = None\<rparr>]
             else [])
          @ map (\<lambda>(i, r). \<lparr>severity = Error, code = OutOfRange,
                     field = ''setup.gearing.gear_ratios['' @ to_string_nat i @ '']'',
                     message = ''Gear ratio must be positive'',
                     expected = None, actual = None\<rparr>)
              (filter (\<lambda>(i, r). r \<le> 0) (List.enumerate 0 ratios))
          @ (case reverse_ratio g of None \<Rightarrow> []
             | Some x \<Rightarrow> check_positive T ''setup.gearing.reverse_ratio'' x [])"
    if "gear_ratios g = Some ratios"
    using that
    by (simp add: validate_gearing_def Let_def validate_gear_ratios_findings
        check_positive_def split: option.splits)
  show "validate T invalid_gear_ratios_example =
        [\<lparr>severity = Error, code = OutOfRange, field = ''setup.gearing.gear_ratios[1]'',
          message = ''Gear ratio must be positive'', expected = None, actual = None\<rparr>,
         \<lparr>severity = Error, code = OutOfRange, field = ''setup.gearing.gear_ratios[3]'',
          message = ''Gear ratio must be positive'', expected = None, actual = None\<rparr>]"
    by (simp add: validate_def invalid_gear_ratios_example_def ORSF_default_def
        Setup_default_def
        validate_schema_def validate_metadata_def validate_car_def validate_context_def
        validate_setup_def validate_aero_def validate_suspension_def validate_tires_def
        validate_drivetrain_def validate_gearing_def validate_brakes_def
        validate_electronics_def validate_fuel_def validate_cross_field_def
        check_required_def check_iso8601_def is_valid_iso8601_def date_time_pat_def
        millis_pat_def zone_pat_def is_digit_def to_string_nat.simps digit_char_def)
qed


theorem validate_gearing_findings_witness:
  "gear_ratios \<lparr>gear_ratios = Some [3.5, - 2.8, 2.3, 0.0, 1.6], reverse_ratio = None\<rparr>
     = Some [3.5, - 2.8, 2.3, 0.0, 1.6]
   \<and> validate_gearing plain_text
        (Some \<lparr>gear_ratios = Some [3.5, - 2.8, 2.3, 0.0, 1.6], reverse_ratio = None\<rparr>) []
      = [\<lparr>severity = Error, code = OutOfRange, field = ''setup.gearing.gear_ratios[1]'',
          message = ''Gear ratio must be positive'', expected = None, actual = None\<rparr>,
         \<lparr>severity = Error, code = OutOfRange, field = ''setup.gearing.gear_ratios[3]'',
          message = ''Gear ratio must be positive'', expected = None, actual = None\<rparr>]
   \<and> gear_ratios \<lparr>gear_ratios = Some [], reverse_ratio = None\<rparr> = Some []
   \<and> validate_gearing plain_text (Some \<lparr>gear_ratios = Some [], reverse_ratio = None\<rparr>) []
      = [\<lparr>severity = Warning, code = InvalidFormat, field = ''setup.gearing.gear_ratios'',
          message = ''Gear ratios array is empty'', expected = None, actual = None\<rparr>]"
  using validate_gearing_findings
      [of plain_text "[]" "\<lparr>gear_ratios = Some [3.5, - 2.8, 2.3, 0.0, 1.6], reverse_ratio = None\<rparr>"
         "[3.5, - 2.8, 2.3, 0.0, 1.6]"]
    validate_gearing_findings
      [of plain_text "[]" "\<lparr>gear_ratios = Some [], reverse_ratio = None\<rparr>" "[]"]
  by (simp add: to_string_nat.simps digit_char_def)

text \<open>
  Claim C8 as stated fails in one detail: the messages of the two findings for the ratios
  \<open>[3.5, -2.8, 2.3, 0.0, 1.6]\<close> are the same text and hold no index; the index is in the
  field path.
\<close>

theorem gear_ratio_message_has_no_index:
  "map message
     (validate_gearing plain_text
        (Some \<lparr>gear_ratios = Some [3.5, - 2.8, 2.3, 0.0, 1.6], reverse_ratio = None\<rparr>) [])
     = [''Gear ratio must be positive'', ''Gear ratio must be positive'']
   \<and> map field
     (validate_gearing plain_text
        (Some \<lparr>gear_ratios = Some [3.5, - 2.8, 2.3, 0.0, 1.6], reverse_ratio = None\<rparr>) [])
     = [''setup.gearing.gear_ratios[1]'', ''setup.gearing.gear_ratios[3]'']"
  by (simp add: validate_gearing_def Let_def to_string_nat.simps digit_char_def)

end
